theory Spec2Isabelle
  imports Complex_Main "HOL-Library.Sublist"
begin

section \<open>Values of the host language\<close>

text \<open>
  Strings are lists of 8-bit characters. A string value stands for the UTF-8 bytes of a
  well-formed JavaScript string: the bytes that \<^verbatim>\<open>Buffer.from\<close> and the HMAC
  \<^verbatim>\<open>update\<close> see. Concatenation, \<^verbatim>\<open>startsWith\<close> of an ASCII literal and
  \<^verbatim>\<open>slice\<close> behind an ASCII prefix act on these bytes as they act on the code units.

  A \<^verbatim>\<open>number\<close> is an integer or \<^verbatim>\<open>NaN\<close>. The timestamps, clock readings and
  window sizes of the webhook verifier are integral; \<^verbatim>\<open>NaN\<close> is what
  \<^verbatim>\<open>parseInt\<close> yields when it finds no digits. Fractions and infinities are outside
  the model. The arithmetic below is the exact one: it is the arithmetic of JavaScript on
  the safe integers (magnitude at most \<open>2^53 - 1\<close>, see \<open>safe_integer\<close>), where a
  number holds every integer exactly, a difference within that range is not rounded and the
  conversion to a string prints plain decimal digits. Beyond that range JavaScript rounds
  and prints an exponent; every property below that depends on the value of a subtraction,
  of a parsed integer or of a printed number takes its numbers from the safe range.
\<close>

definition safe_integer :: "int \<Rightarrow> bool" where
  "safe_integer i = (\<bar>i\<bar> \<le> 9007199254740991)"

datatype number = Num int | NaN

fun minus_number :: "number \<Rightarrow> number \<Rightarrow> number" where
  "minus_number (Num a) (Num b) = Num (a - b)"
| "minus_number _ _ = NaN"

fun Math_abs :: "number \<Rightarrow> number" where
  "Math_abs (Num a) = Num \<bar>a\<bar>"
| "Math_abs NaN = NaN"

text \<open>The relational operator \<^verbatim>\<open>>\<close>: any comparison with \<^verbatim>\<open>NaN\<close> is false.\<close>

fun greater_number :: "number \<Rightarrow> number \<Rightarrow> bool" where
  "greater_number (Num a) (Num b) = (a > b)"
| "greater_number _ _ = False"

text \<open>The decimal digits of a number that is not negative, most significant first.\<close>

function digits_of :: "int \<Rightarrow> string" where
  "digits_of n =
     (if n < 10 then [''0123456789'' ! nat n]
      else digits_of (n div 10) @ [''0123456789'' ! nat (n mod 10)])"
  by pat_completeness auto
termination
  by (relation "measure nat") auto

declare digits_of.simps [simp del]

text \<open>
  The conversion of a number to a string, as a template literal performs it on
  \<^verbatim>\<open>NaN\<close> and on a safe integer: for these JavaScript prints the sign and the plain
  decimal digits.
\<close>

fun Number_toString :: "number \<Rightarrow> string" where
  "Number_toString NaN = ''NaN''"
| "Number_toString (Num i) = (if i < 0 then ''-'' @ digits_of (- i) else digits_of i)"

declare Number_toString.simps [simp del]

text \<open>
  \<^verbatim>\<open>parseInt(s, 10)\<close>: leading white space is skipped, then an optional sign, then the
  longest run of decimal digits is read; with no digit the result is \<^verbatim>\<open>NaN\<close>.
  The result is the exact value of the digits, which is what JavaScript returns as long as
  that value is a safe integer (a longer run of digits is rounded there).
  The white space of the language is the table below, each code point in UTF-8:
  TAB, LF, VT, FF, CR, SP, U+00A0, U+1680, U+2000 to U+200A, U+2028, U+2029, U+202F,
  U+205F, U+3000 and U+FEFF.
\<close>

definition StrWhiteSpaceChar :: "string list" where
  "StrWhiteSpaceChar =
     [[CHR 0x09], [CHR 0x0A], [CHR 0x0B], [CHR 0x0C], [CHR 0x0D], [CHR 0x20],
      [CHR 0xC2, CHR 0xA0],
      [CHR 0xE1, CHR 0x9A, CHR 0x80],
      [CHR 0xE2, CHR 0x80, CHR 0x80], [CHR 0xE2, CHR 0x80, CHR 0x81],
      [CHR 0xE2, CHR 0x80, CHR 0x82], [CHR 0xE2, CHR 0x80, CHR 0x83],
      [CHR 0xE2, CHR 0x80, CHR 0x84], [CHR 0xE2, CHR 0x80, CHR 0x85],
      [CHR 0xE2, CHR 0x80, CHR 0x86], [CHR 0xE2, CHR 0x80, CHR 0x87],
      [CHR 0xE2, CHR 0x80, CHR 0x88], [CHR 0xE2, CHR 0x80, CHR 0x89],
      [CHR 0xE2, CHR 0x80, CHR 0x8A],
      [CHR 0xE2, CHR 0x80, CHR 0xA8], [CHR 0xE2, CHR 0x80, CHR 0xA9],
      [CHR 0xE2, CHR 0x80, CHR 0xAF],
      [CHR 0xE2, CHR 0x81, CHR 0x9F],
      [CHR 0xE3, CHR 0x80, CHR 0x80],
      [CHR 0xEF, CHR 0xBB, CHR 0xBF]]"

function TrimStart :: "string \<Rightarrow> string" where
  "TrimStart s =
     (case find (\<lambda>w. prefix w s) StrWhiteSpaceChar of
        None \<Rightarrow> s
      | Some w \<Rightarrow> TrimStart (drop (length w) s))"
  by pat_completeness auto
termination
proof (relation "measure length")
  show "wf (measure length)" by simp
next
  fix s w
  assume "find (\<lambda>w. prefix w s) StrWhiteSpaceChar = Some w"
  then have "w \<in> set StrWhiteSpaceChar" and "prefix w s"
    by (auto simp: find_Some_iff)
  then have "w \<noteq> []" and "length w \<le> length s"
    by (auto simp: StrWhiteSpaceChar_def prefix_length_le)
  then show "(drop (length w) s, s) \<in> measure length"
    by (cases w) auto
qed

declare TrimStart.simps [simp del]

definition isDigit :: "char \<Rightarrow> bool" where
  "isDigit c = (c \<in> set ''0123456789'')"

definition digit_value :: "char \<Rightarrow> int" where
  "digit_value c = int (of_char c) - 48"

definition parseInt :: "string \<Rightarrow> number" where
  "parseInt s =
     (let t = TrimStart s;
          sign = (case t of c # _ \<Rightarrow> if c = CHR ''-'' then - 1 else 1 | [] \<Rightarrow> 1);
          u = (case t of c # r \<Rightarrow> if c = CHR ''-'' \<or> c = CHR ''+'' then r else t | [] \<Rightarrow> t);
          ds = takeWhile isDigit u
      in if ds = [] then NaN
         else Num (sign * foldl (\<lambda>a d. 10 * a + digit_value d) 0 ds))"

text \<open>
  Thrown values. \<^verbatim>\<open>name\<close> is the \<^verbatim>\<open>name\<close> property, which every class of
  error sets to its own name; \<^verbatim>\<open>statusCode\<close> and \<^verbatim>\<open>retryAfter\<close> are the fields
  that the classes of the SDK add; an absent or \<^verbatim>\<open>undefined\<close> field is \<open>None\<close>.
  The first four are the classes of the language: \<^verbatim>\<open>new Error(msg)\<close> and its kin.
\<close>

record js_error =
  name :: string
  message :: string
  statusCode :: "int option"
  retryAfter :: "number option"

definition Error :: "string \<Rightarrow> js_error" where
  "Error msg = \<lparr>name = ''Error'', message = msg, statusCode = None, retryAfter = None\<rparr>"

definition TypeError :: "string \<Rightarrow> js_error" where
  "TypeError msg = \<lparr>name = ''TypeError'', message = msg, statusCode = None, retryAfter = None\<rparr>"

definition SyntaxError :: "string \<Rightarrow> js_error" where
  "SyntaxError msg = \<lparr>name = ''SyntaxError'', message = msg, statusCode = None, retryAfter = None\<rparr>"

definition RangeError :: "string \<Rightarrow> js_error" where
  "RangeError msg = \<lparr>name = ''RangeError'', message = msg, statusCode = None, retryAfter = None\<rparr>"

text \<open>
  What the platform supplies: the clock \<^verbatim>\<open>Date.now()\<close> in milliseconds, the hex digest
  \<^verbatim>\<open>createHmac('sha256', key).update(message).digest('hex')\<close>, the parser
  \<^verbatim>\<open>JSON.parse\<close> (which throws a \<^verbatim>\<open>SyntaxError\<close> carrying a diagnostic), the
  Unicode lower-casing \<^verbatim>\<open>toLowerCase\<close> of a string, and the conversion to a string of
  a JSON value that is not a string, which throws a \<^verbatim>\<open>TypeError\<close> for a value that has
  no primitive form, such as an object whose member \<^verbatim>\<open>toString\<close> is not a function.
  The SDK is studied for every platform.

  A parsed JSON number is held as a rational; only whether it is zero matters here.
\<close>

datatype json =
    JNull
  | JBool bool
  | JNum rat
  | JStr string
  | JArr "json list"
  | JObj "(string \<times> json) list"

record platform =
  Date_now :: int
  createHmac_sha256_hex :: "string \<Rightarrow> string \<Rightarrow> string"
  JSON_parse :: "string \<Rightarrow> js_error + json"
  toLowerCase :: "string \<Rightarrow> string"
  ToString :: "json \<Rightarrow> js_error + string"

type_synonym Buffer = "char list"

definition Buffer_from :: "string \<Rightarrow> Buffer" where
  "Buffer_from s = s"

text \<open>
  \<^verbatim>\<open>crypto.timingSafeEqual\<close> throws a \<^verbatim>\<open>RangeError\<close> when the byte lengths of its
  two arguments differ, and compares the contents otherwise.
\<close>

definition timingSafeEqual :: "Buffer \<Rightarrow> Buffer \<Rightarrow> js_error + bool" where
  "timingSafeEqual a b =
     (if length a \<noteq> length b
      then Inl (RangeError ''Input buffers must have the same byte length'')
      else Inr (a = b))"

definition startsWith :: "string \<Rightarrow> string \<Rightarrow> bool" where
  "startsWith s p = prefix p s"

definition slice_from :: "nat \<Rightarrow> string \<Rightarrow> string" where
  "slice_from n s = drop n s"

section \<open>The webhook verifier\<close>

record WebhookVerifier =
  secret :: string
  maxAgeSeconds :: number

definition new_WebhookVerifier :: "string \<Rightarrow> number option \<Rightarrow> WebhookVerifier" where
  "new_WebhookVerifier s m =
     \<lparr>secret = s, maxAgeSeconds = (case m of None \<Rightarrow> Num 300 | Some a \<Rightarrow> a)\<rparr>"

definition now_seconds :: "platform \<Rightarrow> number" where
  "now_seconds P = Num (Date_now P div 1000)"

definition signing_message :: "number \<Rightarrow> string \<Rightarrow> string" where
  "signing_message timestamp body = Number_toString timestamp @ ''.'' @ body"

text \<open>
  The two local values of \<^verbatim>\<open>verifySignature\<close> that the properties below speak about:
  the digest it computes and the supplied signature without its optional prefix.
\<close>

definition expected_signature :: "platform \<Rightarrow> WebhookVerifier \<Rightarrow> number \<Rightarrow> string \<Rightarrow> string" where
  "expected_signature P this timestamp body =
     createHmac_sha256_hex P (secret this) (signing_message timestamp body)"

definition sigValue_of :: "string \<Rightarrow> string" where
  "sigValue_of signature =
     (if startsWith signature ''sha256='' then slice_from 7 signature else signature)"

text \<open>
  \<^verbatim>\<open>verifySignature\<close>. The result type has room for a thrown error, so that the absence
  of one is a property to prove; the \<^verbatim>\<open>try\<close>/\<^verbatim>\<open>catch\<close> around the comparison is
  the \<open>case\<close> at the end.
\<close>

definition verifySignature ::
  "platform \<Rightarrow> WebhookVerifier \<Rightarrow> string \<Rightarrow> number \<Rightarrow> string \<Rightarrow> js_error + bool" where
  "verifySignature P this signature timestamp body =
     (let now = now_seconds P in
      if greater_number (Math_abs (minus_number now timestamp)) (maxAgeSeconds this)
      then Inr False
      else
        let expected = expected_signature P this timestamp body;
            sigValue = sigValue_of signature
        in case timingSafeEqual (Buffer_from expected) (Buffer_from sigValue) of
             Inl e \<Rightarrow> Inr False
           | Inr b \<Rightarrow> Inr b)"

subsection \<open>Parsing and validating a delivery\<close>

text \<open>
  Reading a property of a parsed JSON value, for the properties that this SDK reads
  (\<^verbatim>\<open>event\<close>, \<^verbatim>\<open>timestamp\<close>, \<^verbatim>\<open>data\<close>, \<^verbatim>\<open>error\<close>), none of which
  a prototype supplies. Reading from \<^verbatim>\<open>null\<close> throws a \<^verbatim>\<open>TypeError\<close> (the
  message is the one of Node's engine); an object yields its own property or
  \<^verbatim>\<open>undefined\<close> (\<open>None\<close>); a string, number, boolean or array yields
  \<^verbatim>\<open>undefined\<close>. The list in \<open>JObj\<close> holds the own properties of the object,
  each key once.
\<close>

definition null_property_message :: "string \<Rightarrow> string" where
  "null_property_message p =
     ''Cannot read properties of null (reading '' @ [CHR 0x27] @ p @ [CHR 0x27] @ '')''"

fun get_property :: "json \<Rightarrow> string \<Rightarrow> js_error + json option" where
  "get_property JNull p = Inl (TypeError (null_property_message p))"
| "get_property (JObj kvs) p = Inr (map_of kvs p)"
| "get_property _ p = Inr None"

text \<open>Truthiness, as the operator \<^verbatim>\<open>!\<close> tests it.\<close>

fun truthy :: "json \<Rightarrow> bool" where
  "truthy JNull = False"
| "truthy (JBool b) = b"
| "truthy (JNum x) = (x \<noteq> 0)"
| "truthy (JStr s) = (s \<noteq> [])"
| "truthy (JArr _) = True"
| "truthy (JObj _) = True"

definition if_truthy :: "json option \<Rightarrow> json option" where
  "if_truthy v = (case v of None \<Rightarrow> None | Some x \<Rightarrow> if truthy x then Some x else None)"

text \<open>
  The argument object of \<^verbatim>\<open>verifyAndParse\<close> (fields \<^verbatim>\<open>signature\<close>,
  \<^verbatim>\<open>timestamp\<close>, \<^verbatim>\<open>body\<close>, \<^verbatim>\<open>deliveryId\<close>, here with the prefix
  \<open>o_\<close> to keep them apart from the fields of the payload) and the payload it returns.
  The fields of the payload are the parsed values as they are: the source casts them
  without a check.
\<close>

datatype timestamp_input = TsString string | TsNumber number

record options =
  o_signature :: string
  o_timestamp :: timestamp_input
  o_body :: string
  o_deliveryId :: "string option"

record WebhookPayload =
  event :: json
  timestamp :: json
  data :: json
  deliveryId :: string

definition normalized_timestamp :: "options \<Rightarrow> number" where
  "normalized_timestamp options =
     (case o_timestamp options of TsString s \<Rightarrow> parseInt s | TsNumber n \<Rightarrow> n)"

definition missing_field_message :: "string \<Rightarrow> string" where
  "missing_field_message f = ''Missing '' @ [CHR 0x27] @ f @ [CHR 0x27] @ '' field in payload''"

text \<open>
  \<^verbatim>\<open>verifyAndParse\<close>. The first component of the result lists the texts that were
  handed to \<^verbatim>\<open>JSON.parse\<close> during the call, in order; the second is the payload
  returned or the error thrown.
\<close>

definition verifyAndParse ::
  "platform \<Rightarrow> WebhookVerifier \<Rightarrow> options \<Rightarrow> string list \<times> (js_error + WebhookPayload)" where
  "verifyAndParse P this options =
     (let ts = normalized_timestamp options in
      case verifySignature P this (o_signature options) ts (o_body options) of
        Inl e \<Rightarrow> ([], Inl e)
      | Inr verified \<Rightarrow>
          if \<not> verified then ([], Inl (Error ''Invalid webhook signature''))
          else
            ([o_body options],
             case JSON_parse P (o_body options) of
               Inl e \<Rightarrow> Inl (Error (''Invalid JSON payload: '' @ message e))
             | Inr parsed \<Rightarrow>
                 (case get_property parsed ''event'' of
                    Inl e \<Rightarrow> Inl e
                  | Inr ev \<Rightarrow>
                      (case if_truthy ev of
                         None \<Rightarrow> Inl (Error (missing_field_message ''event''))
                       | Some ev' \<Rightarrow>
                           (case get_property parsed ''timestamp'' of
                              Inl e \<Rightarrow> Inl e
                            | Inr tm \<Rightarrow>
                                (case if_truthy tm of
                                   None \<Rightarrow> Inl (Error (missing_field_message ''timestamp''))
                                 | Some tm' \<Rightarrow>
                                     (case get_property parsed ''data'' of
                                        Inl e \<Rightarrow> Inl e
                                      | Inr d \<Rightarrow>
                                          (case if_truthy d of
                                             None \<Rightarrow> Inl (Error (missing_field_message ''data''))
                                           | Some d' \<Rightarrow>
                                               Inr \<lparr>event = ev', timestamp = tm', data = d',
                                                    deliveryId = (case o_deliveryId options of
                                                                    None \<Rightarrow> []
                                                                  | Some i \<Rightarrow> i)\<rparr>))))))))"

subsection \<open>Extracting the webhook headers\<close>

text \<open>
  The two carriers. A \<^verbatim>\<open>Headers\<close> object is its header list; its \<^verbatim>\<open>get\<close> matches
  names without regard to ASCII case and joins the values of all matching entries with a
  comma and a space. A plain object is the list that \<^verbatim>\<open>Object.entries\<close> yields.
\<close>

datatype carrier =
    Headers "(string \<times> string) list"
  | Record "(string \<times> string) list"

definition byte_lowercase_char :: "char \<Rightarrow> char" where
  "byte_lowercase_char c =
     (case map_of (zip ''ABCDEFGHIJKLMNOPQRSTUVWXYZ'' ''abcdefghijklmnopqrstuvwxyz'') c of
        Some l \<Rightarrow> l
      | None \<Rightarrow> c)"

definition byte_lowercase :: "string \<Rightarrow> string" where
  "byte_lowercase s = map byte_lowercase_char s"

fun join_values :: "string list \<Rightarrow> string" where
  "join_values [] = []"
| "join_values [v] = v"
| "join_values (v # w # vs) = v @ '', '' @ join_values (w # vs)"

definition Headers_get :: "(string \<times> string) list \<Rightarrow> string \<Rightarrow> string option" where
  "Headers_get hl key =
     (let vs = map snd (filter (\<lambda>(n, v). byte_lowercase n = byte_lowercase key) hl)
      in if vs = [] then None else Some (join_values vs))"

definition get_header :: "platform \<Rightarrow> carrier \<Rightarrow> string \<Rightarrow> string option" where
  "get_header P headers key =
     (case headers of
        Headers hl \<Rightarrow> Headers_get hl key
      | Record entries \<Rightarrow>
          (let lowerKey = toLowerCase P key
           in map_option snd (find (\<lambda>(k, v). toLowerCase P k = lowerKey) entries)))"

text \<open>The test \<^verbatim>\<open>!s\<close> on a string or \<^verbatim>\<open>null\<close>: \<^verbatim>\<open>null\<close> and the empty string fail it.\<close>

definition if_truthy_string :: "string option \<Rightarrow> string option" where
  "if_truthy_string v = (case v of None \<Rightarrow> None | Some s \<Rightarrow> if s = [] then None else Some s)"

definition nullish_default :: "'a option \<Rightarrow> 'a \<Rightarrow> 'a" where
  "nullish_default v d = (case v of None \<Rightarrow> d | Some x \<Rightarrow> x)"

text \<open>The four values that \<^verbatim>\<open>extractHeaders\<close> returns, with the prefix \<open>h_\<close>.\<close>

record webhook_headers =
  h_signature :: string
  h_timestamp :: string
  h_event :: string
  h_deliveryId :: string

definition extractHeaders :: "platform \<Rightarrow> carrier \<Rightarrow> js_error + webhook_headers" where
  "extractHeaders P headers =
     (let signature = get_header P headers ''x-webhook-signature'';
          timestamp = get_header P headers ''x-webhook-timestamp'';
          event = get_header P headers ''x-webhook-event'';
          deliveryId = get_header P headers ''x-webhook-delivery-id''
      in case if_truthy_string signature of
           None \<Rightarrow> Inl (Error ''Missing X-Webhook-Signature header'')
         | Some sg \<Rightarrow>
             (case if_truthy_string timestamp of
                None \<Rightarrow> Inl (Error ''Missing X-Webhook-Timestamp header'')
              | Some tm \<Rightarrow>
                  Inr \<lparr>h_signature = sg, h_timestamp = tm,
                       h_event = nullish_default event [],
                       h_deliveryId = nullish_default deliveryId []\<rparr>))"

section \<open>The REST client's response handler\<close>

text \<open>The error classes of the SDK, each constructor with its default message.\<close>

definition EZUnsubError :: "string \<Rightarrow> int option \<Rightarrow> js_error" where
  "EZUnsubError msg code =
     \<lparr>name = ''EZUnsubError'', message = msg, statusCode = code, retryAfter = None\<rparr>"

definition AuthenticationError :: "string option \<Rightarrow> js_error" where
  "AuthenticationError msg =
     (EZUnsubError (nullish_default msg ''Authentication required'') (Some 401))
       \<lparr>name := ''AuthenticationError''\<rparr>"

definition ValidationError :: "string option \<Rightarrow> js_error" where
  "ValidationError msg =
     (EZUnsubError (nullish_default msg ''Invalid request'') (Some 400))
       \<lparr>name := ''ValidationError''\<rparr>"

definition NotFoundError :: "string option \<Rightarrow> js_error" where
  "NotFoundError msg =
     (EZUnsubError (nullish_default msg ''Resource not found'') (Some 404))
       \<lparr>name := ''NotFoundError''\<rparr>"

definition RateLimitError :: "string option \<Rightarrow> number option \<Rightarrow> js_error" where
  "RateLimitError msg after =
     (EZUnsubError (nullish_default msg ''Rate limit exceeded'') (Some 429))
       \<lparr>name := ''RateLimitError'', retryAfter := after\<rparr>"

definition ForbiddenError :: "string option \<Rightarrow> js_error" where
  "ForbiddenError msg =
     (EZUnsubError (nullish_default msg ''Access denied'') (Some 403))
       \<lparr>name := ''ForbiddenError''\<rparr>"

text \<open>
  A response: its status, its header list, and what reading its body as text gives (the
  text, or the error that the read throws).
\<close>

record Response =
  r_status :: int
  r_headers :: "(string \<times> string) list"
  r_text :: "js_error + string"

text \<open>\<^verbatim>\<open>parseJson\<close>: the parsed body, or \<^verbatim>\<open>null\<close> (\<open>None\<close>) for an empty or unreadable one.\<close>

definition parseJson :: "platform \<Rightarrow> Response \<Rightarrow> json option" where
  "parseJson P response =
     (case r_text response of
        Inl e \<Rightarrow> None
      | Inr text \<Rightarrow>
          if text = [] then None
          else (case JSON_parse P text of Inl e \<Rightarrow> None | Inr v \<Rightarrow> Some v))"

text \<open>
  \<^verbatim>\<open>data?.error ?? fallback\<close>, the value handed to the constructor of the error: the
  fallback when \<^verbatim>\<open>data\<close> is \<^verbatim>\<open>null\<close> or its \<^verbatim>\<open>error\<close> is absent or
  \<^verbatim>\<open>null\<close>, and otherwise the value of \<^verbatim>\<open>error\<close>, whatever it is: the body is
  cast to \<^verbatim>\<open>{ error?: string }\<close> without a check.
\<close>

definition error_or :: "json option \<Rightarrow> string \<Rightarrow> json" where
  "error_or parsed fallback =
     (case parsed of
        None \<Rightarrow> JStr fallback
      | Some JNull \<Rightarrow> JStr fallback
      | Some v \<Rightarrow>
          (case get_property v ''error'' of
             Inr (Some JNull) \<Rightarrow> JStr fallback
           | Inr (Some x) \<Rightarrow> x
           | _ \<Rightarrow> JStr fallback))"

text \<open>
  Every constructor of an SDK error passes its message on to \<^verbatim>\<open>Error\<close>, which
  converts it to a string: a string stays as it is, any other value goes through the
  conversion of the platform, and when that throws, the \<^verbatim>\<open>TypeError\<close> leaves the
  constructor and no SDK error is built.
\<close>

definition message_string :: "platform \<Rightarrow> json \<Rightarrow> js_error + string" where
  "message_string P v = (case v of JStr s \<Rightarrow> Inr s | _ \<Rightarrow> ToString P v)"

definition handleResponse :: "platform \<Rightarrow> Response \<Rightarrow> js_error + json" where
  "handleResponse P response =
     (if r_status response = 401 then Inl (AuthenticationError None)
      else if r_status response = 403 then
        (let data = parseJson P response
         in case message_string P (error_or data ''Access denied'') of
              Inl e \<Rightarrow> Inl e
            | Inr msg \<Rightarrow> Inl (ForbiddenError (Some msg)))
      else if r_status response = 404 then
        (let data = parseJson P response
         in case message_string P (error_or data ''Resource not found'') of
              Inl e \<Rightarrow> Inl e
            | Inr msg \<Rightarrow> Inl (NotFoundError (Some msg)))
      else if r_status response = 429 then
        (let after = Headers_get (r_headers response) ''Retry-After''
         in Inl (RateLimitError (Some ''Rate limit exceeded'')
                  (case if_truthy_string after of
                     None \<Rightarrow> None
                   | Some a \<Rightarrow> Some (parseInt a))))
      else if r_status response = 400 then
        (let data = parseJson P response
         in case message_string P (error_or data ''Invalid request'') of
              Inl e \<Rightarrow> Inl e
            | Inr msg \<Rightarrow> Inl (ValidationError (Some msg)))
      else if r_status response \<ge> 400 then
        (let data = parseJson P response
         in case message_string P
                   (error_or data
                      (''Request failed with status '' @
                       Number_toString (Num (r_status response)))) of
              Inl e \<Rightarrow> Inl e
            | Inr msg \<Rightarrow> Inl (EZUnsubError msg (Some (r_status response))))
      else if r_status response = 204 then Inr (JObj [])
      else
        (case r_text response of
           Inl e \<Rightarrow> Inl e
         | Inr text \<Rightarrow> if text = [] then Inr (JObj []) else JSON_parse P text))"

section \<open>Notions used in the properties\<close>

definition is_lowercase_hex :: "string \<Rightarrow> bool" where
  "is_lowercase_hex d = list_all (\<lambda>c. c \<in> set ''0123456789abcdef'') d"

text \<open>The first bytes of the white space sequences.\<close>

definition white_space_lead :: "char list" where
  "white_space_lead =
     [CHR 0x09, CHR 0x0A, CHR 0x0B, CHR 0x0C, CHR 0x0D, CHR 0x20, CHR 0xC2, CHR 0xE1, CHR 0xE2,
      CHR 0xE3, CHR 0xEF]"

text \<open>A string begins with a decimal integer: white space, an optional sign, then a digit.\<close>

definition begins_with_decimal_integer :: "string \<Rightarrow> bool" where
  "begins_with_decimal_integer s =
     (let t = TrimStart s;
          u = (case t of c # r \<Rightarrow> if c = CHR ''-'' \<or> c = CHR ''+'' then r else t | [] \<Rightarrow> t)
      in case u of [] \<Rightarrow> False | d # _ \<Rightarrow> isDigit d)"

text \<open>
  A delivery is validly signed and inside the window: its normalized timestamp \<open>T\<close> and
  the window are integers with the clock at most the window away from \<open>T\<close>, and the
  supplied signature is the lowercase hex digest of the signing message for \<open>T\<close> and the
  body, bare or behind the prefix \<^verbatim>\<open>sha256=\<close>.
\<close>

definition validly_signed :: "platform \<Rightarrow> WebhookVerifier \<Rightarrow> options \<Rightarrow> bool" where
  "validly_signed P this options =
     (case (normalized_timestamp options, maxAgeSeconds this) of
        (Num T, Num m) \<Rightarrow>
          (let digest = expected_signature P this (Num T) (o_body options)
           in \<bar>Date_now P div 1000 - T\<bar> \<le> m \<and> is_lowercase_hex digest \<and>
              (o_signature options = digest \<or> o_signature options = ''sha256='' @ digest))
      | _ \<Rightarrow> False)"

text \<open>The own field of a parsed value: only an object has one.\<close>

fun own_field :: "json \<Rightarrow> string \<Rightarrow> json option" where
  "own_field (JObj kvs) f = map_of kvs f"
| "own_field _ f = None"

text \<open>
  The \<^verbatim>\<open>error\<close> member of the body of a response converts to a string: the body
  does not parse to a value with such a member, or the member is null or a string, or the
  conversion of the platform succeeds on it.
\<close>

definition error_member_converts :: "platform \<Rightarrow> Response \<Rightarrow> bool" where
  "error_member_converts P response =
     (case parseJson P response of
        None \<Rightarrow> True
      | Some v \<Rightarrow>
          (case own_field v ''error'' of
             None \<Rightarrow> True
           | Some JNull \<Rightarrow> True
           | Some (JStr s) \<Rightarrow> True
           | Some x \<Rightarrow> (case ToString P x of Inr s \<Rightarrow> True | Inl e \<Rightarrow> False)))"

text \<open>A header value that \<open>parseInt\<close> reads without rounding: no number, or a safe integer.\<close>

definition parses_exactly :: "string \<Rightarrow> bool" where
  "parses_exactly a = (case parseInt a of NaN \<Rightarrow> True | Num n \<Rightarrow> safe_integer n)"

text \<open>A header is absent from a carrier when no entry bears its name, in any casing.\<close>

definition header_absent :: "platform \<Rightarrow> carrier \<Rightarrow> string \<Rightarrow> bool" where
  "header_absent P headers key =
     (case headers of
        Headers hl \<Rightarrow> list_all (\<lambda>(n, v). byte_lowercase n \<noteq> byte_lowercase key) hl
      | Record entries \<Rightarrow> list_all (\<lambda>(k, v). toLowerCase P k \<noteq> toLowerCase P key) entries)"

text \<open>
  Two entry lists that differ only in the casing of their names: they agree, entry by
  entry, once the names are lower-cased.
\<close>

definition same_up_to_case ::
  "(string \<Rightarrow> string) \<Rightarrow> (string \<times> string) list \<Rightarrow> (string \<times> string) list \<Rightarrow> bool" where
  "same_up_to_case lower h h' =
     (map (\<lambda>(k, v). (lower k, v)) h = map (\<lambda>(k, v). (lower k, v)) h')"

section \<open>A platform for the examples\<close>

text \<open>
  The examples run on a platform given by tables: the clock stands at 1700000000 seconds,
  the digests are the HMAC-SHA256 values of the listed messages under the listed key, the
  parser knows the listed documents, and the conversion to a string throws on the object
  whose \<^verbatim>\<open>toString\<close> is null. Elsewhere the tables give a fixed default.
\<close>

definition demo_body :: string where
  \<open>demo_body = ''{"event":"contact.created","timestamp":"2023-11-14T22:13:20Z","data":{"contactId":"c1"}}''\<close>

definition demo_body_empty_data :: string where
  \<open>demo_body_empty_data = ''{"event":"test","timestamp":"2023-11-14T22:13:20Z","data":{}}''\<close>

definition demo_body_no_event :: string where
  \<open>demo_body_no_event = ''{"timestamp":"2023-11-14T22:13:20Z","data":{"contactId":"c1"}}''\<close>

definition demo_body_no_timestamp :: string where
  \<open>demo_body_no_timestamp = ''{"event":"test","data":{"contactId":"c1"}}''\<close>

definition demo_body_null_data :: string where
  \<open>demo_body_null_data = ''{"event":"test","timestamp":"2023-11-14T22:13:20Z","data":null}''\<close>

definition demo_body_truncated :: string where
  \<open>demo_body_truncated = ''{"event":''\<close>

definition demo_error_document :: string where
  \<open>demo_error_document = ''{"error":"No such contact"}''\<close>

definition demo_ok_document :: string where
  \<open>demo_ok_document = ''{"ok":true}''\<close>

definition demo_unconvertible_document :: string where
  \<open>demo_unconvertible_document = ''{"error":{"toString":null}}''\<close>

definition demo_digests :: "((string \<times> string) \<times> string) list" where
  "demo_digests =
     [((''whsec_test'', ''1700000000.'' @ demo_body),
       ''3f76c6c89bd02bb40ffdcf1da428a07484363d00caf42e593836e0443bd7ba42''),
      ((''whsec_test'', ''1700000300.'' @ demo_body),
       ''82378dbde134a250ce357986b10df0bcfa3dbb6f09e009d6dc0146dfe6aef7fa''),
      ((''whsec_test'', ''1700000301.'' @ demo_body),
       ''b8658707ddb6c41506fce48e4a67db12f21fa4d5e2c93ade6397a3f08cc838fd''),
      ((''whsec_test'', ''NaN.'' @ demo_body),
       ''4917321cdc9af554a740ec8d84ddc076e0a96c7ef2d88fca7e36ebc735929ae6''),
      ((''whsec_test'', ''1700000000.'' @ demo_body_empty_data),
       ''6b73b40bd31592c15c724dd37f9864f4b2462dd7d83859a04ebb29ce659d9ae2''),
      ((''whsec_test'', ''1700000000.null''),
       ''a72ad5edcef78195eefc3c76cf448b70843e55ed27324663a91654d74011691d''),
      ((''whsec_test'', ''1700000000.'' @ demo_body_truncated),
       ''f912e12035473c7e569e1c22f8fe7260751488deebda34ea08bccb54a961bb0f''),
      ((''whsec_test'', ''1700000000.'' @ demo_body_no_event),
       ''4b4ff2dccf523cf6dcef08c7ed7bde741d21271e6830902dbe6bae02344d2f07''),
      ((''whsec_test'', ''1700000000.'' @ demo_body_no_timestamp),
       ''e188cc46daddc0287ff51a539752980231b4585adc9662158309910dc3fb5f7e''),
      ((''whsec_test'', ''1700000000.'' @ demo_body_null_data),
       ''753e0e9930aa8658462877be2e74994e059a171ca77f9ba01206c3d26a3b0a64'')]"

definition demo_documents :: "(string \<times> json) list" where
  "demo_documents =
     [(demo_body,
       JObj [(''event'', JStr ''contact.created''),
             (''timestamp'', JStr ''2023-11-14T22:13:20Z''),
             (''data'', JObj [(''contactId'', JStr ''c1'')])]),
      (demo_body_empty_data,
       JObj [(''event'', JStr ''test''),
             (''timestamp'', JStr ''2023-11-14T22:13:20Z''),
             (''data'', JObj [])]),
      (demo_body_no_event,
       JObj [(''timestamp'', JStr ''2023-11-14T22:13:20Z''),
             (''data'', JObj [(''contactId'', JStr ''c1'')])]),
      (demo_body_no_timestamp,
       JObj [(''event'', JStr ''test''),
             (''data'', JObj [(''contactId'', JStr ''c1'')])]),
      (demo_body_null_data,
       JObj [(''event'', JStr ''test''),
             (''timestamp'', JStr ''2023-11-14T22:13:20Z''),
             (''data'', JNull)]),
      (''null'', JNull),
      (demo_error_document, JObj [(''error'', JStr ''No such contact'')]),
      (demo_ok_document, JObj [(''ok'', JBool True)]),
      (demo_unconvertible_document, JObj [(''error'', JObj [(''toString'', JNull)])])]"

definition demo_platform :: platform where
  "demo_platform =
     \<lparr>Date_now = 1700000000123,
      createHmac_sha256_hex =
        (\<lambda>key msg. case map_of demo_digests (key, msg) of
                      Some d \<Rightarrow> d
                    | None \<Rightarrow> replicate 64 (CHR ''0'')),
      JSON_parse =
        (\<lambda>text. case map_of demo_documents text of
                   Some v \<Rightarrow> Inr v
                 | None \<Rightarrow> Inl (SyntaxError ''Unexpected end of JSON input'')),
      toLowerCase = byte_lowercase,
      ToString =
        (\<lambda>v. if v = JObj [(''toString'', JNull)]
             then Inl (TypeError ''Cannot convert object to primitive value'')
             else Inr ''[object Object]'')\<rparr>"

text \<open>Header lists for the examples, in two casings and with a mandatory header left out.\<close>

definition demo_headers_titlecase :: "(string \<times> string) list" where
  "demo_headers_titlecase =
     [(''X-Webhook-Signature'', ''sha256=3f76''), (''X-Webhook-Timestamp'', ''1700000000'')]"

definition demo_headers_mixedcase :: "(string \<times> string) list" where
  "demo_headers_mixedcase =
     [(''x-webhook-signature'', ''sha256=3f76''), (''x-WEBHOOK-timestamp'', ''1700000000'')]"

definition demo_headers_no_signature :: "(string \<times> string) list" where
  "demo_headers_no_signature =
     [(''Content-Type'', ''application/json''), (''X-Webhook-Timestamp'', ''1700000000'')]"

definition demo_headers_no_timestamp :: "(string \<times> string) list" where
  "demo_headers_no_timestamp =
     [(''X-Webhook-Signature'', ''sha256=3f76''), (''X-Webhook-Event'', ''test'')]"

text \<open>A response for the examples: its status, header list and body text.\<close>

definition demo_response :: "int \<Rightarrow> (string \<times> string) list \<Rightarrow> string \<Rightarrow> Response" where
  "demo_response st hs body = \<lparr>r_status = st, r_headers = hs, r_text = Inr body\<rparr>"

definition demo_verifier :: WebhookVerifier where
  "demo_verifier = new_WebhookVerifier ''whsec_test'' None"

text \<open>
  Deliveries for the examples, each signed for its own timestamp and body: the scenario of
  the specification, the same body 301 seconds ahead of the clock, a body whose
  \<^verbatim>\<open>data\<close> is the empty object, bodies without \<^verbatim>\<open>event\<close>, without
  \<^verbatim>\<open>timestamp\<close> and with a null \<^verbatim>\<open>data\<close>, a truncated body,
  the body \<^verbatim>\<open>null\<close>, and a delivery whose timestamp header holds no number.
\<close>

definition demo_options :: options where
  "demo_options =
     \<lparr>o_signature = ''sha256=3f76c6c89bd02bb40ffdcf1da428a07484363d00caf42e593836e0443bd7ba42'',
      o_timestamp = TsString ''1700000000'', o_body = demo_body, o_deliveryId = None\<rparr>"

definition demo_options_late :: options where
  "demo_options_late =
     \<lparr>o_signature = ''sha256=b8658707ddb6c41506fce48e4a67db12f21fa4d5e2c93ade6397a3f08cc838fd'',
      o_timestamp = TsNumber (Num 1700000301), o_body = demo_body, o_deliveryId = None\<rparr>"

definition demo_options_empty_data :: options where
  "demo_options_empty_data =
     \<lparr>o_signature = ''6b73b40bd31592c15c724dd37f9864f4b2462dd7d83859a04ebb29ce659d9ae2'',
      o_timestamp = TsNumber (Num 1700000000), o_body = demo_body_empty_data,
      o_deliveryId = Some ''d-1''\<rparr>"

definition demo_options_no_event :: options where
  "demo_options_no_event =
     \<lparr>o_signature = ''4b4ff2dccf523cf6dcef08c7ed7bde741d21271e6830902dbe6bae02344d2f07'',
      o_timestamp = TsNumber (Num 1700000000), o_body = demo_body_no_event,
      o_deliveryId = None\<rparr>"

definition demo_options_no_timestamp :: options where
  "demo_options_no_timestamp =
     \<lparr>o_signature = ''e188cc46daddc0287ff51a539752980231b4585adc9662158309910dc3fb5f7e'',
      o_timestamp = TsNumber (Num 1700000000), o_body = demo_body_no_timestamp,
      o_deliveryId = None\<rparr>"

definition demo_options_null_data :: options where
  "demo_options_null_data =
     \<lparr>o_signature = ''753e0e9930aa8658462877be2e74994e059a171ca77f9ba01206c3d26a3b0a64'',
      o_timestamp = TsNumber (Num 1700000000), o_body = demo_body_null_data,
      o_deliveryId = None\<rparr>"

definition demo_options_truncated :: options where
  "demo_options_truncated =
     \<lparr>o_signature = ''f912e12035473c7e569e1c22f8fe7260751488deebda34ea08bccb54a961bb0f'',
      o_timestamp = TsNumber (Num 1700000000), o_body = demo_body_truncated,
      o_deliveryId = None\<rparr>"

definition demo_options_null :: options where
  "demo_options_null =
     \<lparr>o_signature = ''a72ad5edcef78195eefc3c76cf448b70843e55ed27324663a91654d74011691d'',
      o_timestamp = TsNumber (Num 1700000000), o_body = ''null'', o_deliveryId = None\<rparr>"

definition demo_options_no_number :: options where
  "demo_options_no_number =
     \<lparr>o_signature = ''4917321cdc9af554a740ec8d84ddc076e0a96c7ef2d88fca7e36ebc735929ae6'',
      o_timestamp = TsString ''soon'', o_body = demo_body, o_deliveryId = None\<rparr>"

section \<open>Facts about the window test and the signature value\<close>

lemma window_test_Num [simp]:
  "greater_number (Math_abs (minus_number (Num n) (Num T))) (Num m) = (m < \<bar>n - T\<bar>)"
  by simp

lemma window_test_NaN [simp]:
  "greater_number (Math_abs (minus_number n NaN)) m = False"
  by (cases n) simp_all

lemma hex_has_no_prefix: "is_lowercase_hex d \<Longrightarrow> sigValue_of d = d"
  by (cases d) (auto simp: is_lowercase_hex_def sigValue_of_def startsWith_def prefix_def)

lemma prefix_is_stripped: "sigValue_of (''sha256='' @ d) = d"
  by (simp add: sigValue_of_def startsWith_def slice_from_def)

lemma verifySignature_inside_window:
  assumes "maxAgeSeconds this = Num m" and "\<bar>Date_now P div 1000 - T\<bar> \<le> m"
  shows "verifySignature P this sg (Num T) B =
           Inr (sigValue_of sg = expected_signature P this (Num T) B)"
  using assms
  by (auto simp: verifySignature_def now_seconds_def timingSafeEqual_def Buffer_from_def Let_def)

lemma verifySignature_outside_window:
  assumes "maxAgeSeconds this = Num m" and "m < \<bar>Date_now P div 1000 - T\<bar>"
  shows "verifySignature P this sg (Num T) B = Inr False"
  using assms by (simp add: verifySignature_def now_seconds_def)

lemma verifySignature_NaN:
  "verifySignature P this sg NaN B = Inr (sigValue_of sg = expected_signature P this NaN B)"
  by (auto simp: verifySignature_def now_seconds_def timingSafeEqual_def Buffer_from_def Let_def)

lemma verifySignature_total: "\<exists>b. verifySignature P this sg ts B = Inr b"
  by (auto simp: verifySignature_def timingSafeEqual_def Let_def)

lemma validly_signed_verifies:
  assumes "validly_signed P this options"
  shows "verifySignature P this (o_signature options) (normalized_timestamp options)
           (o_body options) = Inr True"
proof -
  from assms obtain T m where ts: "normalized_timestamp options = Num T"
    and m: "maxAgeSeconds this = Num m"
    by (auto simp: validly_signed_def split: number.splits)
  let ?d = "expected_signature P this (Num T) (o_body options)"
  from assms ts m have w: "\<bar>Date_now P div 1000 - T\<bar> \<le> m" and h: "is_lowercase_hex ?d"
    and sg: "o_signature options = ?d \<or> o_signature options = ''sha256='' @ ?d"
    by (simp_all add: validly_signed_def Let_def)
  from sg have "sigValue_of (o_signature options) = ?d"
  proof
    assume "o_signature options = ?d"
    with hex_has_no_prefix [OF h] show ?thesis by (simp only:)
  next
    assume "o_signature options = ''sha256='' @ ?d"
    with prefix_is_stripped [of ?d] show ?thesis by (simp only:)
  qed
  then show ?thesis
    using verifySignature_inside_window [OF m w] ts by simp
qed

section \<open>Facts about the example platform\<close>

lemma demo_clock: "Date_now demo_platform div 1000 = 1700000000"
  by (simp add: demo_platform_def)

lemma demo_verifier_fields:
  "secret demo_verifier = ''whsec_test''" "maxAgeSeconds demo_verifier = Num 300"
  by (simp_all add: demo_verifier_def new_WebhookVerifier_def)

lemma demo_timestamp_text: "Number_toString (Num 1700000000) = ''1700000000''"
  by (simp add: Number_toString.simps digits_of.simps)

lemma demo_digest:
  "createHmac_sha256_hex demo_platform ''whsec_test''
     (Number_toString (Num 1700000000) @ ''.'' @ demo_body) =
   ''3f76c6c89bd02bb40ffdcf1da428a07484363d00caf42e593836e0443bd7ba42''"
  by (simp add: demo_platform_def demo_digests_def demo_body_def Number_toString.simps
        digits_of.simps)

lemma demo_digest_is_hex:
  "is_lowercase_hex ''3f76c6c89bd02bb40ffdcf1da428a07484363d00caf42e593836e0443bd7ba42''"
  by (simp add: is_lowercase_hex_def)

section \<open>The signature check\<close>

text \<open>
  Claim C2. For every secret \<open>S\<close>, body \<open>B\<close> and integer timestamp \<open>T\<close> that the
  clock is at most \<open>maxAgeSeconds\<close> away from, \<^verbatim>\<open>verifySignature\<close> returns true on
  the lowercase hex HMAC-SHA256, under \<open>S\<close>, of the decimal string of \<open>T\<close>, a dot and
  the bytes of \<open>B\<close>. The integers are the safe integers of JavaScript: the timestamp, the
  window and the clock are numbers that hold their integer exactly.
\<close>

theorem verifySignature_accepts_correct_signature:
  assumes "safe_integer T" and "safe_integer m" and "safe_integer (Date_now P)"
    and "\<bar>Date_now P div 1000 - T\<bar> \<le> m"
    and "is_lowercase_hex
           (createHmac_sha256_hex P S (Number_toString (Num T) @ ''.'' @ B))"
  shows "verifySignature P \<lparr>secret = S, maxAgeSeconds = Num m\<rparr>
           (createHmac_sha256_hex P S (Number_toString (Num T) @ ''.'' @ B)) (Num T) B
         = Inr True"
proof -
  let ?V = "\<lparr>secret = S, maxAgeSeconds = Num m\<rparr>"
  have m: "maxAgeSeconds ?V = Num m" by simp
  show ?thesis
    using verifySignature_inside_window [OF m assms(4)] hex_has_no_prefix [OF assms(5)]
    by (simp add: expected_signature_def signing_message_def)
qed

theorem verifySignature_accepts_correct_signature_witness:
  "safe_integer 1700000000 \<and> safe_integer 300 \<and> safe_integer (Date_now demo_platform) \<and>
   \<bar>Date_now demo_platform div 1000 - 1700000000\<bar> \<le> 300 \<and>
   is_lowercase_hex
     (createHmac_sha256_hex demo_platform ''whsec_test''
        (Number_toString (Num 1700000000) @ ''.'' @ demo_body)) \<and>
   verifySignature demo_platform \<lparr>secret = ''whsec_test'', maxAgeSeconds = Num 300\<rparr>
     ''3f76c6c89bd02bb40ffdcf1da428a07484363d00caf42e593836e0443bd7ba42''
     (Num 1700000000) demo_body = Inr True"
proof -
  have s: "safe_integer 1700000000" "safe_integer 300" "safe_integer (Date_now demo_platform)"
    by (simp_all add: safe_integer_def demo_platform_def)
  have w: "\<bar>Date_now demo_platform div 1000 - 1700000000\<bar> \<le> 300"
    by (simp add: demo_clock)
  have d: "createHmac_sha256_hex demo_platform ''whsec_test''
             (Number_toString (Num 1700000000) @ ''.'' @ demo_body) =
           ''3f76c6c89bd02bb40ffdcf1da428a07484363d00caf42e593836e0443bd7ba42''"
    by (rule demo_digest)
  have h: "is_lowercase_hex
             (createHmac_sha256_hex demo_platform ''whsec_test''
                (Number_toString (Num 1700000000) @ ''.'' @ demo_body))"
    by (simp only: d demo_digest_is_hex)
  from verifySignature_accepts_correct_signature [OF s w h] s w h show ?thesis
    by (simp only: d simp_thms)
qed

lemma demo_digest_300:
  "createHmac_sha256_hex demo_platform ''whsec_test''
     (Number_toString (Num 1700000300) @ ''.'' @ demo_body) =
   ''82378dbde134a250ce357986b10df0bcfa3dbb6f09e009d6dc0146dfe6aef7fa''"
  by (simp add: demo_platform_def demo_digests_def demo_body_def Number_toString.simps
        digits_of.simps)

text \<open>
  Claim C3. The replay window is inclusive and symmetric: when the clock is exactly
  \<open>maxAgeSeconds\<close> away from the timestamp the correct signature yields true, and when it
  is \<open>maxAgeSeconds + 1\<close> away, with the timestamp in the past or in the future, every
  signature yields false. The timestamp, the window and the clock are safe integers, so
  that the difference is the exact one.
\<close>

theorem replay_window_inclusive_and_symmetric:
  assumes "safe_integer T" and "safe_integer m" and "safe_integer (Date_now P)"
  shows
  "(\<bar>Date_now P div 1000 - T\<bar> = m \<and>
    is_lowercase_hex (createHmac_sha256_hex P S (Number_toString (Num T) @ ''.'' @ B)) \<longrightarrow>
      verifySignature P \<lparr>secret = S, maxAgeSeconds = Num m\<rparr>
        (createHmac_sha256_hex P S (Number_toString (Num T) @ ''.'' @ B)) (Num T) B
      = Inr True) \<and>
   (\<bar>Date_now P div 1000 - T\<bar> = m + 1 \<longrightarrow>
      verifySignature P \<lparr>secret = S, maxAgeSeconds = Num m\<rparr> sg (Num T) B = Inr False) \<and>
   (T = Date_now P div 1000 - (m + 1) \<and> 0 \<le> m \<longrightarrow>
      verifySignature P \<lparr>secret = S, maxAgeSeconds = Num m\<rparr> sg (Num T) B = Inr False) \<and>
   (T = Date_now P div 1000 + (m + 1) \<and> 0 \<le> m \<longrightarrow>
      verifySignature P \<lparr>secret = S, maxAgeSeconds = Num m\<rparr> sg (Num T) B = Inr False)"
proof (intro conjI impI)
  let ?V = "\<lparr>secret = S, maxAgeSeconds = Num m\<rparr>"
  have m: "maxAgeSeconds ?V = Num m" by simp
  {
    assume a: "\<bar>Date_now P div 1000 - T\<bar> = m \<and>
      is_lowercase_hex (createHmac_sha256_hex P S (Number_toString (Num T) @ ''.'' @ B))"
    then have w: "\<bar>Date_now P div 1000 - T\<bar> \<le> m" by simp
    from a show "verifySignature P ?V
        (createHmac_sha256_hex P S (Number_toString (Num T) @ ''.'' @ B)) (Num T) B = Inr True"
      using verifySignature_inside_window [OF m w] hex_has_no_prefix
      by (simp add: expected_signature_def signing_message_def)
  }
  {
    assume "\<bar>Date_now P div 1000 - T\<bar> = m + 1"
    then have "m < \<bar>Date_now P div 1000 - T\<bar>" by simp
    then show "verifySignature P ?V sg (Num T) B = Inr False"
      by (rule verifySignature_outside_window [OF m])
  }
  {
    assume "T = Date_now P div 1000 - (m + 1) \<and> 0 \<le> m"
    then have "m < \<bar>Date_now P div 1000 - T\<bar>" by simp
    then show "verifySignature P ?V sg (Num T) B = Inr False"
      by (rule verifySignature_outside_window [OF m])
  }
  {
    assume "T = Date_now P div 1000 + (m + 1) \<and> 0 \<le> m"
    then have "m < \<bar>Date_now P div 1000 - T\<bar>" by simp
    then show "verifySignature P ?V sg (Num T) B = Inr False"
      by (rule verifySignature_outside_window [OF m])
  }
qed

theorem replay_window_inclusive_and_symmetric_witness:
  "safe_integer 300 \<and> safe_integer (Date_now demo_platform) \<and>
   safe_integer 1700000300 \<and> safe_integer 1700000301 \<and> safe_integer 1699999699 \<and>
   \<bar>Date_now demo_platform div 1000 - 1700000300\<bar> = 300 \<and>
   verifySignature demo_platform \<lparr>secret = ''whsec_test'', maxAgeSeconds = Num 300\<rparr>
     ''82378dbde134a250ce357986b10df0bcfa3dbb6f09e009d6dc0146dfe6aef7fa''
     (Num 1700000300) demo_body = Inr True \<and>
   \<bar>Date_now demo_platform div 1000 - 1700000301\<bar> = 300 + 1 \<and>
   1700000301 = Date_now demo_platform div 1000 + (300 + 1) \<and>
   verifySignature demo_platform \<lparr>secret = ''whsec_test'', maxAgeSeconds = Num 300\<rparr>
     (createHmac_sha256_hex demo_platform ''whsec_test''
        (Number_toString (Num 1700000301) @ ''.'' @ demo_body))
     (Num 1700000301) demo_body = Inr False \<and>
   \<bar>Date_now demo_platform div 1000 - 1699999699\<bar> = 300 + 1 \<and>
   1699999699 = Date_now demo_platform div 1000 - (300 + 1) \<and>
   verifySignature demo_platform \<lparr>secret = ''whsec_test'', maxAgeSeconds = Num 300\<rparr>
     ''anything'' (Num 1699999699) demo_body = Inr False"
proof -
  have s: "safe_integer 300" "safe_integer (Date_now demo_platform)"
    and t: "safe_integer 1700000300" "safe_integer 1700000301" "safe_integer 1699999699"
    by (simp_all add: safe_integer_def demo_platform_def)
  note inst = replay_window_inclusive_and_symmetric
                [OF _ s, of _ "''whsec_test''" demo_body]
  have a: "\<bar>Date_now demo_platform div 1000 - 1700000300\<bar> = 300"
    by (simp add: demo_clock)
  have h: "is_lowercase_hex (createHmac_sha256_hex demo_platform ''whsec_test''
             (Number_toString (Num 1700000300) @ ''.'' @ demo_body))"
    unfolding demo_digest_300 by (simp add: is_lowercase_hex_def)
  have "verifySignature demo_platform \<lparr>secret = ''whsec_test'', maxAgeSeconds = Num 300\<rparr>
          (createHmac_sha256_hex demo_platform ''whsec_test''
             (Number_toString (Num 1700000300) @ ''.'' @ demo_body))
          (Num 1700000300) demo_body = Inr True"
    using inst [OF t(1)] a h by blast
  then have 1: "verifySignature demo_platform
          \<lparr>secret = ''whsec_test'', maxAgeSeconds = Num 300\<rparr>
          ''82378dbde134a250ce357986b10df0bcfa3dbb6f09e009d6dc0146dfe6aef7fa''
          (Num 1700000300) demo_body = Inr True"
    by (simp only: demo_digest_300)
  have b: "\<bar>Date_now demo_platform div 1000 - 1700000301\<bar> = 300 + 1"
    and b': "1700000301 = Date_now demo_platform div 1000 + (300 + 1)"
    by (simp_all add: demo_clock)
  have 2: "verifySignature demo_platform \<lparr>secret = ''whsec_test'', maxAgeSeconds = Num 300\<rparr>
     (createHmac_sha256_hex demo_platform ''whsec_test''
        (Number_toString (Num 1700000301) @ ''.'' @ demo_body))
     (Num 1700000301) demo_body = Inr False"
    using inst [OF t(2)] b by blast
  have c: "\<bar>Date_now demo_platform div 1000 - 1699999699\<bar> = 300 + 1"
    and c': "1699999699 = Date_now demo_platform div 1000 - (300 + 1)"
    by (simp_all add: demo_clock)
  have 3: "verifySignature demo_platform \<lparr>secret = ''whsec_test'', maxAgeSeconds = Num 300\<rparr>
     ''anything'' (Num 1699999699) demo_body = Inr False"
    using inst [OF t(3), of "''anything''"] c by blast
  from s t a 1 b b' 2 c c' 3 show ?thesis by (intro conjI)
qed

text \<open>
  Claim C4. \<^verbatim>\<open>verifySignature\<close> never raises: for every signature, timestamp and body
  it returns a boolean, and it returns false when the supplied signature value and the
  computed digest differ in length.
\<close>

theorem verifySignature_never_raises:
  "(\<exists>b. verifySignature P this sg ts B = Inr b) \<and>
   (length (sigValue_of sg) \<noteq> length (expected_signature P this ts B) \<longrightarrow>
      verifySignature P this sg ts B = Inr False)"
  by (auto simp: verifySignature_def timingSafeEqual_def Buffer_from_def Let_def)

theorem verifySignature_never_raises_witness:
  "length (sigValue_of ''sha256=3f76'') \<noteq>
     length (expected_signature demo_platform demo_verifier (Num 1700000000) demo_body) \<and>
   length (expected_signature demo_platform demo_verifier (Num 1700000000) demo_body) = 64 \<and>
   verifySignature demo_platform demo_verifier ''sha256=3f76'' (Num 1700000000) demo_body
     = Inr False"
proof -
  have e: "expected_signature demo_platform demo_verifier (Num 1700000000) demo_body =
           ''3f76c6c89bd02bb40ffdcf1da428a07484363d00caf42e593836e0443bd7ba42''"
    unfolding expected_signature_def signing_message_def demo_verifier_fields
    by (rule demo_digest)
  have l: "length (expected_signature demo_platform demo_verifier (Num 1700000000) demo_body)
           = 64"
    by (simp add: e)
  have s: "sigValue_of ''sha256=3f76'' = ''3f76''"
    using prefix_is_stripped [of "''3f76''"] by simp
  have d: "length (sigValue_of ''sha256=3f76'') \<noteq>
     length (expected_signature demo_platform demo_verifier (Num 1700000000) demo_body)"
    by (simp add: l s)
  from verifySignature_never_raises
         [of demo_platform demo_verifier "''sha256=3f76''" "Num 1700000000" demo_body] d l
  show ?thesis by blast
qed

lemma TrimStart_no_white_space:
  "find (\<lambda>w. prefix w s) StrWhiteSpaceChar = None \<Longrightarrow> TrimStart s = s"
  by (simp add: TrimStart.simps)

lemma demo_parseInt: "parseInt ''1700000000'' = Num 1700000000"
proof -
  have "TrimStart ''1700000000'' = ''1700000000''"
    by (rule TrimStart_no_white_space) (simp add: StrWhiteSpaceChar_def)
  then show ?thesis
    by (simp add: parseInt_def isDigit_def digit_value_def)
qed

lemma demo_parseInt_no_number: "parseInt ''soon'' = NaN"
proof -
  have "TrimStart ''soon'' = ''soon''"
    by (rule TrimStart_no_white_space) (simp add: StrWhiteSpaceChar_def)
  then show ?thesis
    by (simp add: parseInt_def isDigit_def)
qed

lemmas demo_evaluation =
  expected_signature_def signing_message_def demo_verifier_fields demo_platform_def
  demo_digests_def Number_toString.simps digits_of.simps demo_body_def
  demo_body_empty_data_def demo_body_no_event_def demo_body_truncated_def
  demo_body_no_timestamp_def demo_body_null_data_def

lemma demo_expected:
  "expected_signature demo_platform demo_verifier (Num 1700000000) demo_body =
     ''3f76c6c89bd02bb40ffdcf1da428a07484363d00caf42e593836e0443bd7ba42''"
  "expected_signature demo_platform demo_verifier (Num 1700000301) demo_body =
     ''b8658707ddb6c41506fce48e4a67db12f21fa4d5e2c93ade6397a3f08cc838fd''"
  "expected_signature demo_platform demo_verifier NaN demo_body =
     ''4917321cdc9af554a740ec8d84ddc076e0a96c7ef2d88fca7e36ebc735929ae6''"
  "expected_signature demo_platform demo_verifier (Num 1700000000) demo_body_empty_data =
     ''6b73b40bd31592c15c724dd37f9864f4b2462dd7d83859a04ebb29ce659d9ae2''"
  "expected_signature demo_platform demo_verifier (Num 1700000000) demo_body_no_event =
     ''4b4ff2dccf523cf6dcef08c7ed7bde741d21271e6830902dbe6bae02344d2f07''"
  "expected_signature demo_platform demo_verifier (Num 1700000000) demo_body_truncated =
     ''f912e12035473c7e569e1c22f8fe7260751488deebda34ea08bccb54a961bb0f''"
  "expected_signature demo_platform demo_verifier (Num 1700000000) ''null'' =
     ''a72ad5edcef78195eefc3c76cf448b70843e55ed27324663a91654d74011691d''"
  "expected_signature demo_platform demo_verifier (Num 1700000000) demo_body_no_timestamp =
     ''e188cc46daddc0287ff51a539752980231b4585adc9662158309910dc3fb5f7e''"
  "expected_signature demo_platform demo_verifier (Num 1700000000) demo_body_null_data =
     ''753e0e9930aa8658462877be2e74994e059a171ca77f9ba01206c3d26a3b0a64''"
  by (simp_all add: demo_evaluation)

lemma demo_parse:
  "JSON_parse demo_platform demo_body =
     Inr (JObj [(''event'', JStr ''contact.created''),
                (''timestamp'', JStr ''2023-11-14T22:13:20Z''),
                (''data'', JObj [(''contactId'', JStr ''c1'')])])"
  "JSON_parse demo_platform demo_body_empty_data =
     Inr (JObj [(''event'', JStr ''test''),
                (''timestamp'', JStr ''2023-11-14T22:13:20Z''),
                (''data'', JObj [])])"
  "JSON_parse demo_platform demo_body_no_event =
     Inr (JObj [(''timestamp'', JStr ''2023-11-14T22:13:20Z''),
                (''data'', JObj [(''contactId'', JStr ''c1'')])])"
  "JSON_parse demo_platform demo_body_truncated =
     Inl (SyntaxError ''Unexpected end of JSON input'')"
  "JSON_parse demo_platform ''null'' = Inr JNull"
  "JSON_parse demo_platform demo_body_no_timestamp =
     Inr (JObj [(''event'', JStr ''test''),
                (''data'', JObj [(''contactId'', JStr ''c1'')])])"
  "JSON_parse demo_platform demo_body_null_data =
     Inr (JObj [(''event'', JStr ''test''),
                (''timestamp'', JStr ''2023-11-14T22:13:20Z''),
                (''data'', JNull)])"
  by (simp_all add: demo_platform_def demo_documents_def demo_body_def
        demo_body_empty_data_def demo_body_no_event_def demo_body_truncated_def
        demo_body_no_timestamp_def demo_body_null_data_def
        demo_error_document_def demo_ok_document_def demo_unconvertible_document_def)

lemma demo_validly_signed:
  "validly_signed demo_platform demo_verifier demo_options"
  "validly_signed demo_platform demo_verifier demo_options_empty_data"
  "validly_signed demo_platform demo_verifier demo_options_no_event"
  "validly_signed demo_platform demo_verifier demo_options_truncated"
  "validly_signed demo_platform demo_verifier demo_options_null"
  "validly_signed demo_platform demo_verifier demo_options_no_timestamp"
  "validly_signed demo_platform demo_verifier demo_options_null_data"
  by (simp_all add: validly_signed_def normalized_timestamp_def demo_options_def
        demo_options_no_timestamp_def demo_options_null_data_def
        demo_options_empty_data_def demo_options_no_event_def demo_options_truncated_def
        demo_options_null_def demo_parseInt demo_verifier_fields demo_clock demo_expected
        is_lowercase_hex_def)

section \<open>Verification before parsing\<close>

lemma verifyAndParse_rejected:
  assumes "verifySignature P this (o_signature options) (normalized_timestamp options)
             (o_body options) = Inr False"
  shows "verifyAndParse P this options = ([], Inl (Error ''Invalid webhook signature''))"
  using assms by (simp add: verifyAndParse_def)



text \<open>
  Claim C1. \<^verbatim>\<open>verifyAndParse\<close> returns a payload only if \<^verbatim>\<open>verifySignature\<close>
  returned true for the supplied signature, the normalized timestamp and the body; when
  \<^verbatim>\<open>verifySignature\<close> returns false it fails with the error whose message is
  \<^verbatim>\<open>Invalid webhook signature\<close>, and nothing has been handed to \<^verbatim>\<open>JSON.parse\<close>.
  The error is an instance of the base class \<^verbatim>\<open>Error\<close>; its fixed message is what marks
  it as the authentication failure.
\<close>

theorem verifyAndParse_requires_verified_signature:
  "(snd (verifyAndParse P this options) = Inr payload \<longrightarrow>
      verifySignature P this (o_signature options) (normalized_timestamp options)
        (o_body options) = Inr True) \<and>
   (fst (verifyAndParse P this options) \<noteq> [] \<longrightarrow>
      verifySignature P this (o_signature options) (normalized_timestamp options)
        (o_body options) = Inr True) \<and>
   (verifySignature P this (o_signature options) (normalized_timestamp options)
      (o_body options) = Inr False \<longrightarrow>
      verifyAndParse P this options = ([], Inl (Error ''Invalid webhook signature'')))"
proof (intro conjI impI)
  obtain b where b: "verifySignature P this (o_signature options)
      (normalized_timestamp options) (o_body options) = Inr b"
    using verifySignature_total by blast
  {
    assume "snd (verifyAndParse P this options) = Inr payload"
    with b show "verifySignature P this (o_signature options) (normalized_timestamp options)
        (o_body options) = Inr True"
      by (cases b) (simp_all add: verifyAndParse_def)
  }
  {
    assume "fst (verifyAndParse P this options) \<noteq> []"
    with b show "verifySignature P this (o_signature options) (normalized_timestamp options)
        (o_body options) = Inr True"
      by (cases b) (simp_all add: verifyAndParse_def)
  }
  {
    assume "verifySignature P this (o_signature options) (normalized_timestamp options)
      (o_body options) = Inr False"
    then show "verifyAndParse P this options = ([], Inl (Error ''Invalid webhook signature''))"
      by (rule verifyAndParse_rejected)
  }
qed

lemma demo_accepted:
  "verifyAndParse demo_platform demo_verifier demo_options =
     ([demo_body],
      Inr \<lparr>event = JStr ''contact.created'', timestamp = JStr ''2023-11-14T22:13:20Z'',
           data = JObj [(''contactId'', JStr ''c1'')], deliveryId = []\<rparr>)"
proof -
  have b: "o_body demo_options = demo_body" by (simp add: demo_options_def)
  have d: "o_deliveryId demo_options = None" by (simp add: demo_options_def)
  show ?thesis
    using validly_signed_verifies [OF demo_validly_signed(1)]
    by (simp add: verifyAndParse_def b d demo_parse if_truthy_def)
qed

lemma demo_late_rejected:
  "verifySignature demo_platform demo_verifier (o_signature demo_options_late)
     (normalized_timestamp demo_options_late) (o_body demo_options_late) = Inr False"
proof -
  have "(300::int) < \<bar>Date_now demo_platform div 1000 - 1700000301\<bar>"
    by (simp add: demo_clock)
  from verifySignature_outside_window [OF demo_verifier_fields(2) this]
  show ?thesis by (simp add: demo_options_late_def normalized_timestamp_def)
qed

theorem verifyAndParse_requires_verified_signature_witness:
  "snd (verifyAndParse demo_platform demo_verifier demo_options) =
     Inr \<lparr>event = JStr ''contact.created'', timestamp = JStr ''2023-11-14T22:13:20Z'',
          data = JObj [(''contactId'', JStr ''c1'')], deliveryId = []\<rparr> \<and>
   fst (verifyAndParse demo_platform demo_verifier demo_options) \<noteq> [] \<and>
   verifySignature demo_platform demo_verifier (o_signature demo_options)
     (normalized_timestamp demo_options) (o_body demo_options) = Inr True \<and>
   verifySignature demo_platform demo_verifier (o_signature demo_options_late)
     (normalized_timestamp demo_options_late) (o_body demo_options_late) = Inr False \<and>
   verifyAndParse demo_platform demo_verifier demo_options_late =
     ([], Inl (Error ''Invalid webhook signature''))"
proof -
  have 1: "snd (verifyAndParse demo_platform demo_verifier demo_options) =
     Inr \<lparr>event = JStr ''contact.created'', timestamp = JStr ''2023-11-14T22:13:20Z'',
          data = JObj [(''contactId'', JStr ''c1'')], deliveryId = []\<rparr>"
    by (simp add: demo_accepted)
  have 2: "fst (verifyAndParse demo_platform demo_verifier demo_options) \<noteq> []"
    by (simp add: demo_accepted)
  from verifyAndParse_requires_verified_signature
         [of demo_platform demo_verifier demo_options
             "\<lparr>event = JStr ''contact.created'', timestamp = JStr ''2023-11-14T22:13:20Z'',
               data = JObj [(''contactId'', JStr ''c1'')], deliveryId = []\<rparr>"] 1
  have 3: "verifySignature demo_platform demo_verifier (o_signature demo_options)
     (normalized_timestamp demo_options) (o_body demo_options) = Inr True"
    by blast
  from verifyAndParse_requires_verified_signature
         [of demo_platform demo_verifier demo_options_late] demo_late_rejected
  have 4: "verifyAndParse demo_platform demo_verifier demo_options_late =
     ([], Inl (Error ''Invalid webhook signature''))"
    by blast
  from 1 2 3 demo_late_rejected 4 show ?thesis by (intro conjI)
qed





section \<open>Timestamps that hold no number\<close>

lemma takeWhile_Nil_case:
  "takeWhile Q u = [] \<longleftrightarrow> \<not> (case u of [] \<Rightarrow> False | d # _ \<Rightarrow> Q d)"
  by (cases u) simp_all

lemma parseInt_NaN_iff: "parseInt s = NaN \<longleftrightarrow> \<not> begins_with_decimal_integer s"
  by (simp add: parseInt_def begins_with_decimal_integer_def Let_def takeWhile_Nil_case)

text \<open>
  Claim C10. A timestamp string that does not begin with a decimal integer is normalized
  to \<^verbatim>\<open>NaN\<close>; the test of the replay window is then false whatever the clock and the
  window are, so the delivery is not rejected there, and \<^verbatim>\<open>verifySignature\<close> returns
  the outcome of comparing the supplied signature value with the digest of the message
  \<^verbatim>\<open>NaN.\<close> followed by the body.
\<close>

theorem unparsable_timestamp_skips_replay_window:
  assumes "o_timestamp options = TsString s"
    and "\<not> begins_with_decimal_integer s"
  shows "normalized_timestamp options = NaN \<and>
         \<not> greater_number
              (Math_abs (minus_number (now_seconds P) (normalized_timestamp options)))
              (maxAgeSeconds this) \<and>
         verifySignature P this (o_signature options) (normalized_timestamp options)
           (o_body options) =
           Inr (sigValue_of (o_signature options) =
                  createHmac_sha256_hex P (secret this) (''NaN.'' @ o_body options)) \<and>
         (verifyAndParse P this options = ([], Inl (Error ''Invalid webhook signature'')) \<longleftrightarrow>
            sigValue_of (o_signature options) \<noteq>
              createHmac_sha256_hex P (secret this) (''NaN.'' @ o_body options))"
proof -
  have n: "normalized_timestamp options = NaN"
    using assms by (simp add: normalized_timestamp_def parseInt_NaN_iff)
  have e: "expected_signature P this NaN (o_body options) =
             createHmac_sha256_hex P (secret this) (''NaN.'' @ o_body options)"
    by (simp add: expected_signature_def signing_message_def Number_toString.simps)
  have v: "verifySignature P this (o_signature options) (normalized_timestamp options)
             (o_body options) =
           Inr (sigValue_of (o_signature options) =
                  createHmac_sha256_hex P (secret this) (''NaN.'' @ o_body options))"
    unfolding n verifySignature_NaN e ..
  have r: "verifyAndParse P this options = ([], Inl (Error ''Invalid webhook signature'')) \<longleftrightarrow>
            sigValue_of (o_signature options) \<noteq>
              createHmac_sha256_hex P (secret this) (''NaN.'' @ o_body options)"
    using v by (auto simp: verifyAndParse_def)
  from n v r show ?thesis by simp
qed

theorem unparsable_timestamp_skips_replay_window_witness:
  "o_timestamp demo_options_no_number = TsString ''soon'' \<and>
   \<not> begins_with_decimal_integer ''soon'' \<and>
   normalized_timestamp demo_options_no_number = NaN \<and>
   verifySignature demo_platform demo_verifier (o_signature demo_options_no_number)
     (normalized_timestamp demo_options_no_number) (o_body demo_options_no_number) = Inr True \<and>
   verifyAndParse demo_platform demo_verifier demo_options_no_number \<noteq>
     ([], Inl (Error ''Invalid webhook signature''))"
proof -
  have t: "o_timestamp demo_options_no_number = TsString ''soon''"
    by (simp add: demo_options_no_number_def)
  have b: "\<not> begins_with_decimal_integer ''soon''"
    using demo_parseInt_no_number by (simp add: parseInt_NaN_iff)
  have s: "sigValue_of (o_signature demo_options_no_number) =
             createHmac_sha256_hex demo_platform (secret demo_verifier)
               (''NaN.'' @ o_body demo_options_no_number)"
    using demo_expected(3)
    by (simp add: demo_options_no_number_def sigValue_of_def startsWith_def
          expected_signature_def signing_message_def Number_toString.simps)
  note inst =
    unparsable_timestamp_skips_replay_window [OF t b, of demo_platform demo_verifier]
  from inst have n: "normalized_timestamp demo_options_no_number = NaN" by blast
  from inst have "verifySignature demo_platform demo_verifier
     (o_signature demo_options_no_number) (normalized_timestamp demo_options_no_number)
     (o_body demo_options_no_number) =
     Inr (sigValue_of (o_signature demo_options_no_number) =
            createHmac_sha256_hex demo_platform (secret demo_verifier)
              (''NaN.'' @ o_body demo_options_no_number))"
    by blast
  then have v: "verifySignature demo_platform demo_verifier
     (o_signature demo_options_no_number) (normalized_timestamp demo_options_no_number)
     (o_body demo_options_no_number) = Inr True"
    unfolding s by (simp only: simp_thms)
  from inst s have r: "verifyAndParse demo_platform demo_verifier demo_options_no_number \<noteq>
     ([], Inl (Error ''Invalid webhook signature''))"
    by blast
  from t b n v r show ?thesis by (intro conjI)
qed

section \<open>Required fields of the payload\<close>







section \<open>Header extraction\<close>

lemma find_lowered:
  "map_option snd (find (\<lambda>(k, v). lower k = L) h) =
   map_option snd (find (\<lambda>(k, v). k = L) (map (\<lambda>(k, v). (lower k, v)) h))"
  by (induction h) auto

lemma filter_lowered:
  "map snd (filter (\<lambda>(n, v). lower n = L) h) =
   map snd (filter (\<lambda>(n, v). n = L) (map (\<lambda>(n, v). (lower n, v)) h))"
  by (induction h) auto

lemma find_same_up_to_case:
  assumes "same_up_to_case lower h h'"
  shows "map_option snd (find (\<lambda>(k, v). lower k = L) h) =
         map_option snd (find (\<lambda>(k, v). lower k = L) h')"
  using assms unfolding same_up_to_case_def find_lowered [of lower L] by (simp only:)

lemma filter_same_up_to_case:
  assumes "same_up_to_case lower h h'"
  shows "map snd (filter (\<lambda>(n, v). lower n = L) h) =
         map snd (filter (\<lambda>(n, v). lower n = L) h')"
  using assms unfolding same_up_to_case_def filter_lowered [of lower L] by (simp only:)

lemma get_header_Record_casing:
  assumes "same_up_to_case (toLowerCase P) h h'"
  shows "get_header P (Record h) key = get_header P (Record h') key"
  using find_same_up_to_case [OF assms] by (simp add: get_header_def)

lemma get_header_Headers_casing:
  assumes "same_up_to_case byte_lowercase h h'"
  shows "get_header P (Headers h) key = get_header P (Headers h') key"
  using filter_same_up_to_case [OF assms] by (simp add: get_header_def Headers_get_def)

lemma header_absent_iff: "header_absent P c key \<longleftrightarrow> get_header P c key = None"
  by (cases c)
     (auto simp: header_absent_def get_header_def Headers_get_def Let_def find_None_iff
        list_all_iff filter_empty_conv)

lemma extractHeaders_no_signature:
  "if_truthy_string (get_header P c ''x-webhook-signature'') = None \<Longrightarrow>
   extractHeaders P c = Inl (Error ''Missing X-Webhook-Signature header'')"
  by (simp add: extractHeaders_def Let_def)

lemma extractHeaders_no_timestamp:
  "if_truthy_string (get_header P c ''x-webhook-signature'') = Some sg \<Longrightarrow>
   if_truthy_string (get_header P c ''x-webhook-timestamp'') = None \<Longrightarrow>
   extractHeaders P c = Inl (Error ''Missing X-Webhook-Timestamp header'')"
  by (simp add: extractHeaders_def Let_def)

lemma extractHeaders_both:
  "if_truthy_string (get_header P c ''x-webhook-signature'') = Some sg \<Longrightarrow>
   if_truthy_string (get_header P c ''x-webhook-timestamp'') = Some tm \<Longrightarrow>
   extractHeaders P c =
     Inr \<lparr>h_signature = sg, h_timestamp = tm,
          h_event = nullish_default (get_header P c ''x-webhook-event'') [],
          h_deliveryId = nullish_default (get_header P c ''x-webhook-delivery-id'') []\<rparr>"
  by (simp add: extractHeaders_def Let_def)

lemma if_truthy_string_Some:
  "if_truthy_string v = Some s \<longleftrightarrow> v = Some s \<and> s \<noteq> []"
  by (auto simp: if_truthy_string_def split: option.splits)

text \<open>
  Claim C7. For both carriers \<^verbatim>\<open>extractHeaders\<close> returns the same result for every
  casing of the header names. When \<^verbatim>\<open>x-webhook-signature\<close> is absent it fails with
  the error naming that header; when the signature is there and
  \<^verbatim>\<open>x-webhook-timestamp\<close> is absent it fails with the error naming that header (the
  signature is checked first, so an absent timestamp always fails). When
  \<^verbatim>\<open>x-webhook-event\<close> or \<^verbatim>\<open>x-webhook-delivery-id\<close> is absent the field is the
  empty string, and the call succeeds as soon as signature and timestamp are there.
\<close>

theorem extractHeaders_casing_and_absence:
  "(same_up_to_case (toLowerCase P) h h' \<longrightarrow>
      extractHeaders P (Record h) = extractHeaders P (Record h')) \<and>
   (same_up_to_case byte_lowercase h h' \<longrightarrow>
      extractHeaders P (Headers h) = extractHeaders P (Headers h')) \<and>
   (header_absent P c ''x-webhook-signature'' \<longrightarrow>
      extractHeaders P c = Inl (Error ''Missing X-Webhook-Signature header'')) \<and>
   (get_header P c ''x-webhook-signature'' = Some sg \<and> sg \<noteq> [] \<and>
    header_absent P c ''x-webhook-timestamp'' \<longrightarrow>
      extractHeaders P c = Inl (Error ''Missing X-Webhook-Timestamp header'')) \<and>
   (header_absent P c ''x-webhook-timestamp'' \<longrightarrow> (\<exists>e. extractHeaders P c = Inl e)) \<and>
   (get_header P c ''x-webhook-signature'' = Some sg \<and> sg \<noteq> [] \<and>
    get_header P c ''x-webhook-timestamp'' = Some tm \<and> tm \<noteq> [] \<longrightarrow>
      (\<exists>r. extractHeaders P c = Inr r \<and> h_signature r = sg \<and> h_timestamp r = tm \<and>
           (header_absent P c ''x-webhook-event'' \<longrightarrow> h_event r = []) \<and>
           (header_absent P c ''x-webhook-delivery-id'' \<longrightarrow> h_deliveryId r = [])))"
proof (intro conjI impI)
  assume "same_up_to_case (toLowerCase P) h h'"
  then show "extractHeaders P (Record h) = extractHeaders P (Record h')"
    by (simp add: extractHeaders_def get_header_Record_casing)
next
  assume "same_up_to_case byte_lowercase h h'"
  then show "extractHeaders P (Headers h) = extractHeaders P (Headers h')"
    by (simp add: extractHeaders_def get_header_Headers_casing [of h h'])
next
  assume "header_absent P c ''x-webhook-signature''"
  then have "if_truthy_string (get_header P c ''x-webhook-signature'') = None"
    by (simp add: header_absent_iff if_truthy_string_def)
  then show "extractHeaders P c = Inl (Error ''Missing X-Webhook-Signature header'')"
    by (rule extractHeaders_no_signature)
next
  assume a: "get_header P c ''x-webhook-signature'' = Some sg \<and> sg \<noteq> [] \<and>
    header_absent P c ''x-webhook-timestamp''"
  then have s: "if_truthy_string (get_header P c ''x-webhook-signature'') = Some sg"
    by (simp add: if_truthy_string_Some)
  from a have "if_truthy_string (get_header P c ''x-webhook-timestamp'') = None"
    by (simp add: header_absent_iff if_truthy_string_def)
  with s show "extractHeaders P c = Inl (Error ''Missing X-Webhook-Timestamp header'')"
    by (rule extractHeaders_no_timestamp)
next
  assume "header_absent P c ''x-webhook-timestamp''"
  then have t: "if_truthy_string (get_header P c ''x-webhook-timestamp'') = None"
    by (simp add: header_absent_iff if_truthy_string_def)
  show "\<exists>e. extractHeaders P c = Inl e"
  proof (cases "if_truthy_string (get_header P c ''x-webhook-signature'')")
    case None
    then show ?thesis using extractHeaders_no_signature by blast
  next
    case (Some x)
    then show ?thesis using extractHeaders_no_timestamp [OF Some t] by blast
  qed
next
  assume a: "get_header P c ''x-webhook-signature'' = Some sg \<and> sg \<noteq> [] \<and>
    get_header P c ''x-webhook-timestamp'' = Some tm \<and> tm \<noteq> []"
  then have s: "if_truthy_string (get_header P c ''x-webhook-signature'') = Some sg"
    and t: "if_truthy_string (get_header P c ''x-webhook-timestamp'') = Some tm"
    by (simp_all add: if_truthy_string_Some)
  show "\<exists>r. extractHeaders P c = Inr r \<and> h_signature r = sg \<and> h_timestamp r = tm \<and>
           (header_absent P c ''x-webhook-event'' \<longrightarrow> h_event r = []) \<and>
           (header_absent P c ''x-webhook-delivery-id'' \<longrightarrow> h_deliveryId r = [])"
    using extractHeaders_both [OF s t]
    by (simp add: header_absent_iff nullish_default_def)
qed

lemma demo_lowercase:
  "byte_lowercase ''X-Webhook-Signature'' = ''x-webhook-signature''"
  "byte_lowercase ''X-Webhook-Timestamp'' = ''x-webhook-timestamp''"
  "byte_lowercase ''X-Webhook-Event'' = ''x-webhook-event''"
  "byte_lowercase ''Content-Type'' = ''content-type''"
  "byte_lowercase ''x-WEBHOOK-timestamp'' = ''x-webhook-timestamp''"
  "byte_lowercase ''x-webhook-signature'' = ''x-webhook-signature''"
  "byte_lowercase ''x-webhook-timestamp'' = ''x-webhook-timestamp''"
  "byte_lowercase ''x-webhook-event'' = ''x-webhook-event''"
  "byte_lowercase ''x-webhook-delivery-id'' = ''x-webhook-delivery-id''"
  by (simp_all add: byte_lowercase_def byte_lowercase_char_def)

lemmas demo_header_evaluation =
  get_header_def Headers_get_def header_absent_def same_up_to_case_def demo_lowercase
  demo_headers_titlecase_def demo_headers_mixedcase_def
  demo_headers_no_signature_def demo_headers_no_timestamp_def

lemma demo_toLowerCase: "toLowerCase demo_platform = byte_lowercase"
  by (simp add: demo_platform_def)

theorem extractHeaders_casing_and_absence_witness:
  "same_up_to_case (toLowerCase demo_platform) demo_headers_titlecase demo_headers_mixedcase \<and>
   extractHeaders demo_platform (Record demo_headers_titlecase) =
     extractHeaders demo_platform (Record demo_headers_mixedcase) \<and>
   same_up_to_case byte_lowercase demo_headers_titlecase demo_headers_mixedcase \<and>
   extractHeaders demo_platform (Headers demo_headers_titlecase) =
     extractHeaders demo_platform (Headers demo_headers_mixedcase) \<and>
   header_absent demo_platform (Record demo_headers_no_signature) ''x-webhook-signature'' \<and>
   extractHeaders demo_platform (Record demo_headers_no_signature) =
     Inl (Error ''Missing X-Webhook-Signature header'') \<and>
   header_absent demo_platform (Headers demo_headers_no_timestamp) ''x-webhook-timestamp'' \<and>
   extractHeaders demo_platform (Headers demo_headers_no_timestamp) =
     Inl (Error ''Missing X-Webhook-Timestamp header'') \<and>
   header_absent demo_platform (Record demo_headers_mixedcase) ''x-webhook-event'' \<and>
   header_absent demo_platform (Record demo_headers_mixedcase) ''x-webhook-delivery-id'' \<and>
   extractHeaders demo_platform (Record demo_headers_mixedcase) =
     Inr \<lparr>h_signature = ''sha256=3f76'', h_timestamp = ''1700000000'', h_event = [],
          h_deliveryId = []\<rparr>"
proof -
  have s1: "same_up_to_case (toLowerCase demo_platform) demo_headers_titlecase
              demo_headers_mixedcase"
    by (simp add: demo_toLowerCase demo_header_evaluation)
  have s2: "same_up_to_case byte_lowercase demo_headers_titlecase demo_headers_mixedcase"
    by (simp add: demo_header_evaluation)
  have e1: "extractHeaders demo_platform (Record demo_headers_titlecase) =
     extractHeaders demo_platform (Record demo_headers_mixedcase)"
    using extractHeaders_casing_and_absence
            [of demo_platform demo_headers_titlecase demo_headers_mixedcase] s1
    by blast
  have e2: "extractHeaders demo_platform (Headers demo_headers_titlecase) =
     extractHeaders demo_platform (Headers demo_headers_mixedcase)"
    using extractHeaders_casing_and_absence
            [of demo_platform demo_headers_titlecase demo_headers_mixedcase] s2
    by blast
  have a1: "header_absent demo_platform (Record demo_headers_no_signature)
              ''x-webhook-signature''"
    by (simp add: demo_toLowerCase demo_header_evaluation)
  have e3: "extractHeaders demo_platform (Record demo_headers_no_signature) =
     Inl (Error ''Missing X-Webhook-Signature header'')"
    using extractHeaders_casing_and_absence
            [of demo_platform _ _ "Record demo_headers_no_signature"] a1
    by blast
  have a2: "header_absent demo_platform (Headers demo_headers_no_timestamp)
              ''x-webhook-timestamp''"
    by (simp add: demo_header_evaluation)
  have g2: "get_header demo_platform (Headers demo_headers_no_timestamp)
              ''x-webhook-signature'' = Some ''sha256=3f76''"
    by (simp add: demo_header_evaluation)
  have e4: "extractHeaders demo_platform (Headers demo_headers_no_timestamp) =
     Inl (Error ''Missing X-Webhook-Timestamp header'')"
    using extractHeaders_casing_and_absence
            [of demo_platform _ _ "Headers demo_headers_no_timestamp" "''sha256=3f76''"]
          a2 g2
    by simp
  have a3: "header_absent demo_platform (Record demo_headers_mixedcase) ''x-webhook-event''"
    and a4: "header_absent demo_platform (Record demo_headers_mixedcase)
               ''x-webhook-delivery-id''"
    by (simp_all add: demo_toLowerCase demo_header_evaluation)
  have g3: "get_header demo_platform (Record demo_headers_mixedcase)
              ''x-webhook-signature'' = Some ''sha256=3f76''"
    and g4: "get_header demo_platform (Record demo_headers_mixedcase)
              ''x-webhook-timestamp'' = Some ''1700000000''"
    by (simp_all add: demo_toLowerCase demo_header_evaluation)
  have "\<exists>r. extractHeaders demo_platform (Record demo_headers_mixedcase) = Inr r \<and>
          h_signature r = ''sha256=3f76'' \<and> h_timestamp r = ''1700000000'' \<and>
          h_event r = [] \<and> h_deliveryId r = []"
    using extractHeaders_casing_and_absence
            [of demo_platform _ _ "Record demo_headers_mixedcase" "''sha256=3f76''"
                "''1700000000''"]
          a3 a4 g3 g4
    by simp
  then have e5: "extractHeaders demo_platform (Record demo_headers_mixedcase) =
     Inr \<lparr>h_signature = ''sha256=3f76'', h_timestamp = ''1700000000'', h_event = [],
          h_deliveryId = []\<rparr>"
    by auto
  from s1 e1 s2 e2 a1 e3 a2 e4 a3 a4 e5 show ?thesis by (intro conjI)
qed

section \<open>The mapping of HTTP statuses\<close>

lemma message_string_converts:
  assumes "error_member_converts P response"
  shows "\<exists>msg. message_string P (error_or (parseJson P response) fallback) = Inr msg"
proof (cases "parseJson P response")
  case None
  then show ?thesis by (simp add: error_or_def message_string_def)
next
  case (Some v)
  show ?thesis
  proof (cases "own_field v ''error''")
    case None
    with Some show ?thesis
      by (cases v) (simp_all add: error_or_def message_string_def)
  next
    case (Some x)
    then obtain kvs where v: "v = JObj kvs" and x: "map_of kvs ''error'' = Some x"
      by (cases v) simp_all
    from assms \<open>parseJson P response = Some v\<close> v x
    have c: "case x of JNull \<Rightarrow> True | JStr s \<Rightarrow> True
               | _ \<Rightarrow> (case ToString P x of Inr s \<Rightarrow> True | Inl e \<Rightarrow> False)"
      by (simp add: error_member_converts_def split: json.splits)
    from \<open>parseJson P response = Some v\<close> v x c show ?thesis
      by (cases x) (auto simp: error_or_def message_string_def split: sum.splits)
  qed
qed

lemma message_string_throws:
  assumes "\<not> error_member_converts P response"
  shows "\<exists>x e. ToString P x = Inl e \<and>
           message_string P (error_or (parseJson P response) fallback) = Inl e"
proof -
  from assms obtain v where p: "parseJson P response = Some v"
    by (cases "parseJson P response") (simp_all add: error_member_converts_def)
  with assms obtain x where o: "own_field v ''error'' = Some x"
    by (cases "own_field v ''error''") (simp_all add: error_member_converts_def)
  then obtain kvs where v: "v = JObj kvs" and x: "map_of kvs ''error'' = Some x"
    by (cases v) simp_all
  from assms p o obtain e where e: "ToString P x = Inl e" and n: "x \<noteq> JNull"
    and t: "\<forall>s. x \<noteq> JStr s"
    by (cases x; cases "ToString P x") (simp_all add: error_member_converts_def)
  from p v x n t have "message_string P (error_or (parseJson P response) fallback) = ToString P x"
    by (cases x) (simp_all add: error_or_def message_string_def)
  with e show ?thesis by auto
qed

lemma demo_response_fields:
  "r_status (demo_response st hs body) = st"
  "r_headers (demo_response st hs body) = hs"
  "r_text (demo_response st hs body) = Inr body"
  by (simp_all add: demo_response_def)

lemma demo_retry_after:
  "Headers_get [(''retry-after'', ''30'')] ''Retry-After'' = Some ''30''"
  by (simp add: Headers_get_def byte_lowercase_def byte_lowercase_char_def)

lemma demo_parseInt_30: "parseInt ''30'' = Num 30"
proof -
  have "TrimStart ''30'' = ''30''"
    by (rule TrimStart_no_white_space) (simp add: StrWhiteSpaceChar_def)
  then show ?thesis
    by (simp add: parseInt_def isDigit_def digit_value_def)
qed

lemma demo_parse_documents:
  "JSON_parse demo_platform demo_ok_document = Inr (JObj [(''ok'', JBool True)])"
  "JSON_parse demo_platform demo_error_document =
     Inr (JObj [(''error'', JStr ''No such contact'')])"
  "JSON_parse demo_platform demo_unconvertible_document =
     Inr (JObj [(''error'', JObj [(''toString'', JNull)])])"
  by (simp_all add: demo_platform_def demo_documents_def demo_body_def
        demo_body_empty_data_def demo_body_no_event_def demo_body_truncated_def
        demo_body_no_timestamp_def demo_body_null_data_def
        demo_error_document_def demo_ok_document_def demo_unconvertible_document_def)

lemma demo_documents_nonempty:
  "demo_ok_document \<noteq> []" "demo_error_document \<noteq> []" "demo_unconvertible_document \<noteq> []"
  by (simp_all add: demo_ok_document_def demo_error_document_def
        demo_unconvertible_document_def)

lemma demo_ToString_unconvertible:
  "ToString demo_platform (JObj [(''toString'', JNull)]) =
     Inl (TypeError ''Cannot convert object to primitive value'')"
  by (simp add: demo_platform_def)

text \<open>
  Claim C8, as the code has it. The claim as stated fails: a response with status 403
  whose body gives \<^verbatim>\<open>error\<close> an object without a usable \<^verbatim>\<open>toString\<close> makes the
  constructor of the error throw a \<^verbatim>\<open>TypeError\<close>, and no forbidden error is built.
\<close>

theorem unconvertible_error_member_raises_TypeError:
  "JSON_parse demo_platform demo_unconvertible_document =
     Inr (JObj [(''error'', JObj [(''toString'', JNull)])]) \<and>
   ToString demo_platform (JObj [(''toString'', JNull)]) =
     Inl (TypeError ''Cannot convert object to primitive value'') \<and>
   handleResponse demo_platform (demo_response 403 [] demo_unconvertible_document) =
     Inl (TypeError ''Cannot convert object to primitive value'')"
proof -
  have "handleResponse demo_platform (demo_response 403 [] demo_unconvertible_document) =
     Inl (TypeError ''Cannot convert object to primitive value'')"
    by (simp add: handleResponse_def demo_response_fields parseJson_def error_or_def
          message_string_def demo_parse_documents demo_documents_nonempty
          demo_ToString_unconvertible)
  with demo_parse_documents(3) demo_ToString_unconvertible show ?thesis by (intro conjI)
qed

text \<open>
  Claim C8, amended. The response handler maps status 401 to the authentication error;
  403 to the forbidden error, 404 to the not-found error, 400 to the validation error and
  every other status from 400 on to the generic API error carrying the status, each of the
  four provided that the \<^verbatim>\<open>error\<close> member of the body, if there is one, converts to a
  string (as the string that its declared type says it is does), and with the
  \<^verbatim>\<open>TypeError\<close> of the conversion otherwise; 429 to the rate-limit error, carrying no
  retry-after value when the \<^verbatim>\<open>Retry-After\<close> header is absent or empty and the number
  parsed from it otherwise (stated for header values that parse without rounding). Below
  400, status 204 and an empty body give the empty object, and any other body is handed to
  the JSON parser.
\<close>

theorem handleResponse_status_mapping:
  "(r_status response = 401 \<longrightarrow>
      handleResponse P response = Inl (AuthenticationError None)) \<and>
   (r_status response = 403 \<and> error_member_converts P response \<longrightarrow>
      (\<exists>msg. handleResponse P response = Inl (ForbiddenError (Some msg)))) \<and>
   (r_status response = 404 \<and> error_member_converts P response \<longrightarrow>
      (\<exists>msg. handleResponse P response = Inl (NotFoundError (Some msg)))) \<and>
   (r_status response = 429 \<longrightarrow>
      (\<exists>after. handleResponse P response =
                Inl (RateLimitError (Some ''Rate limit exceeded'') after))) \<and>
   (r_status response = 429 \<and>
    if_truthy_string (Headers_get (r_headers response) ''Retry-After'') = None \<longrightarrow>
      handleResponse P response = Inl (RateLimitError (Some ''Rate limit exceeded'') None)) \<and>
   (r_status response = 429 \<and>
    Headers_get (r_headers response) ''Retry-After'' = Some a \<and> a \<noteq> [] \<and>
    parses_exactly a \<longrightarrow>
      handleResponse P response =
        Inl (RateLimitError (Some ''Rate limit exceeded'') (Some (parseInt a)))) \<and>
   (r_status response = 400 \<and> error_member_converts P response \<longrightarrow>
      (\<exists>msg. handleResponse P response = Inl (ValidationError (Some msg)))) \<and>
   (r_status response \<ge> 400 \<and> r_status response \<notin> {400, 401, 403, 404, 429} \<and>
    error_member_converts P response \<longrightarrow>
      (\<exists>msg. handleResponse P response =
               Inl (EZUnsubError msg (Some (r_status response))))) \<and>
   (r_status response \<ge> 400 \<and> r_status response \<notin> {401, 429} \<and>
    \<not> error_member_converts P response \<longrightarrow>
      (\<exists>x e. ToString P x = Inl e \<and> handleResponse P response = Inl e)) \<and>
   (r_status response < 400 \<and> r_status response = 204 \<longrightarrow>
      handleResponse P response = Inr (JObj [])) \<and>
   (r_status response < 400 \<and> r_text response = Inr [] \<longrightarrow>
      handleResponse P response = Inr (JObj [])) \<and>
   (r_status response < 400 \<and> r_status response \<noteq> 204 \<and> r_text response = Inr body \<and>
    body \<noteq> [] \<longrightarrow>
      handleResponse P response = JSON_parse P body)"
proof (intro conjI impI)
  assume "r_status response = 401"
  then show "handleResponse P response = Inl (AuthenticationError None)"
    by (simp add: handleResponse_def)
next
  assume a: "r_status response = 403 \<and> error_member_converts P response"
  then obtain msg where
    "message_string P (error_or (parseJson P response) ''Access denied'') = Inr msg"
    using message_string_converts by blast
  with a show "\<exists>msg. handleResponse P response = Inl (ForbiddenError (Some msg))"
    by (auto simp: handleResponse_def Let_def)
next
  assume a: "r_status response = 404 \<and> error_member_converts P response"
  then obtain msg where
    "message_string P (error_or (parseJson P response) ''Resource not found'') = Inr msg"
    using message_string_converts by blast
  with a show "\<exists>msg. handleResponse P response = Inl (NotFoundError (Some msg))"
    by (auto simp: handleResponse_def Let_def)
next
  assume "r_status response = 429"
  then show "\<exists>after. handleResponse P response =
                Inl (RateLimitError (Some ''Rate limit exceeded'') after)"
    by (auto simp: handleResponse_def Let_def)
next
  assume "r_status response = 429 \<and>
    if_truthy_string (Headers_get (r_headers response) ''Retry-After'') = None"
  then show "handleResponse P response =
      Inl (RateLimitError (Some ''Rate limit exceeded'') None)"
    by (simp add: handleResponse_def Let_def)
next
  assume "r_status response = 429 \<and>
    Headers_get (r_headers response) ''Retry-After'' = Some a \<and> a \<noteq> [] \<and> parses_exactly a"
  then show "handleResponse P response =
        Inl (RateLimitError (Some ''Rate limit exceeded'') (Some (parseInt a)))"
    by (simp add: handleResponse_def Let_def if_truthy_string_def)
next
  assume a: "r_status response = 400 \<and> error_member_converts P response"
  then obtain msg where
    "message_string P (error_or (parseJson P response) ''Invalid request'') = Inr msg"
    using message_string_converts by blast
  with a show "\<exists>msg. handleResponse P response = Inl (ValidationError (Some msg))"
    by (auto simp: handleResponse_def Let_def)
next
  assume a: "r_status response \<ge> 400 \<and> r_status response \<notin> {400, 401, 403, 404, 429} \<and>
    error_member_converts P response"
  then obtain msg where
    "message_string P
       (error_or (parseJson P response)
          (''Request failed with status '' @ Number_toString (Num (r_status response)))) =
     Inr msg"
    using message_string_converts by blast
  with a show "\<exists>msg. handleResponse P response =
               Inl (EZUnsubError msg (Some (r_status response)))"
    by (auto simp: handleResponse_def Let_def)
next
  assume a: "r_status response \<ge> 400 \<and> r_status response \<notin> {401, 429} \<and>
    \<not> error_member_converts P response"
  then have n: "\<not> error_member_converts P response" by simp
  from a consider "r_status response = 403" | "r_status response = 404"
    | "r_status response = 400"
    | "r_status response \<notin> {400, 401, 403, 404, 429}" "r_status response \<ge> 400"
    by auto
  then show "\<exists>x e. ToString P x = Inl e \<and> handleResponse P response = Inl e"
  proof cases
    case 1
    with message_string_throws [OF n, of "''Access denied''"] show ?thesis
      by (auto simp: handleResponse_def Let_def)
  next
    case 2
    with message_string_throws [OF n, of "''Resource not found''"] show ?thesis
      by (auto simp: handleResponse_def Let_def)
  next
    case 3
    with message_string_throws [OF n, of "''Invalid request''"] show ?thesis
      by (auto simp: handleResponse_def Let_def)
  next
    case 4
    with message_string_throws
           [OF n, of "''Request failed with status '' @ Number_toString (Num (r_status response))"]
    show ?thesis
      by (auto simp: handleResponse_def Let_def)
  qed
next
  assume "r_status response < 400 \<and> r_status response = 204"
  then show "handleResponse P response = Inr (JObj [])"
    by (simp add: handleResponse_def)
next
  assume "r_status response < 400 \<and> r_text response = Inr []"
  then show "handleResponse P response = Inr (JObj [])"
    by (simp add: handleResponse_def)
next
  assume "r_status response < 400 \<and> r_status response \<noteq> 204 \<and> r_text response = Inr body \<and>
    body \<noteq> []"
  then show "handleResponse P response = JSON_parse P body"
    by (simp add: handleResponse_def)
qed

lemma error_kinds:
  "name (AuthenticationError m) = ''AuthenticationError'' \<and>
     statusCode (AuthenticationError m) = Some 401"
  "name (ForbiddenError m) = ''ForbiddenError'' \<and> statusCode (ForbiddenError m) = Some 403"
  "name (NotFoundError m) = ''NotFoundError'' \<and> statusCode (NotFoundError m) = Some 404"
  "name (RateLimitError m a) = ''RateLimitError'' \<and>
     statusCode (RateLimitError m a) = Some 429 \<and> retryAfter (RateLimitError m a) = a"
  "name (ValidationError m) = ''ValidationError'' \<and> statusCode (ValidationError m) = Some 400"
  "name (EZUnsubError s c) = ''EZUnsubError'' \<and> statusCode (EZUnsubError s c) = c"
  by (simp_all add: AuthenticationError_def ForbiddenError_def NotFoundError_def
        RateLimitError_def ValidationError_def EZUnsubError_def)

lemma demo_converts:
  "error_member_converts demo_platform (demo_response st hs [])"
  "error_member_converts demo_platform (demo_response st hs demo_error_document)"
  by (simp_all add: error_member_converts_def parseJson_def demo_response_fields
        demo_parse_documents demo_documents_nonempty)

theorem handleResponse_status_mapping_witness:
  "handleResponse demo_platform (demo_response 401 [] []) = Inl (AuthenticationError None) \<and>
   error_member_converts demo_platform (demo_response 403 [] []) \<and>
   (\<exists>msg. handleResponse demo_platform (demo_response 403 [] []) =
            Inl (ForbiddenError (Some msg))) \<and>
   error_member_converts demo_platform (demo_response 404 [] demo_error_document) \<and>
   (\<exists>msg. handleResponse demo_platform (demo_response 404 [] demo_error_document) =
            Inl (NotFoundError (Some msg))) \<and>
   parses_exactly ''30'' \<and>
   handleResponse demo_platform (demo_response 429 [(''retry-after'', ''30'')] []) =
     Inl (RateLimitError (Some ''Rate limit exceeded'') (Some (Num 30))) \<and>
   handleResponse demo_platform (demo_response 429 [] []) =
     Inl (RateLimitError (Some ''Rate limit exceeded'') None) \<and>
   (\<exists>msg. handleResponse demo_platform (demo_response 400 [] []) =
            Inl (ValidationError (Some msg))) \<and>
   (\<exists>msg. handleResponse demo_platform (demo_response 503 [] []) =
            Inl (EZUnsubError msg (Some 503))) \<and>
   \<not> error_member_converts demo_platform
       (demo_response 403 [] demo_unconvertible_document) \<and>
   (\<exists>x e. ToString demo_platform x = Inl e \<and>
      handleResponse demo_platform (demo_response 403 [] demo_unconvertible_document) =
        Inl e) \<and>
   handleResponse demo_platform (demo_response 204 [] []) = Inr (JObj []) \<and>
   handleResponse demo_platform (demo_response 200 [] []) = Inr (JObj []) \<and>
   handleResponse demo_platform (demo_response 200 [] demo_ok_document) =
     Inr (JObj [(''ok'', JBool True)])"
proof -
  note inst = handleResponse_status_mapping [of _ demo_platform]
  have 1: "handleResponse demo_platform (demo_response 401 [] []) =
             Inl (AuthenticationError None)"
    using inst [of "demo_response 401 [] []"] by (simp add: demo_response_fields)
  have 2: "\<exists>msg. handleResponse demo_platform (demo_response 403 [] []) =
            Inl (ForbiddenError (Some msg))"
    using inst [of "demo_response 403 [] []"] demo_converts(1)
    by (simp add: demo_response_fields)
  have 3: "\<exists>msg. handleResponse demo_platform (demo_response 404 [] demo_error_document) =
            Inl (NotFoundError (Some msg))"
    using inst [of "demo_response 404 [] demo_error_document"] demo_converts(2)
    by (simp add: demo_response_fields)
  have e: "parses_exactly ''30''"
    by (simp add: parses_exactly_def demo_parseInt_30 safe_integer_def)
  have 4: "handleResponse demo_platform (demo_response 429 [(''retry-after'', ''30'')] []) =
     Inl (RateLimitError (Some ''Rate limit exceeded'') (Some (Num 30)))"
    using inst [of "demo_response 429 [(''retry-after'', ''30'')] []" "''30''"] e
    by (simp add: demo_response_fields demo_retry_after demo_parseInt_30)
  have 5: "handleResponse demo_platform (demo_response 429 [] []) =
     Inl (RateLimitError (Some ''Rate limit exceeded'') None)"
    using inst [of "demo_response 429 [] []"]
    by (simp add: demo_response_fields Headers_get_def if_truthy_string_def)
  have 6: "\<exists>msg. handleResponse demo_platform (demo_response 400 [] []) =
            Inl (ValidationError (Some msg))"
    using inst [of "demo_response 400 [] []"] demo_converts(1)
    by (simp add: demo_response_fields)
  have 7: "\<exists>msg. handleResponse demo_platform (demo_response 503 [] []) =
            Inl (EZUnsubError msg (Some 503))"
    using inst [of "demo_response 503 [] []"] demo_converts(1)
    by (simp add: demo_response_fields)
  have u: "\<not> error_member_converts demo_platform
              (demo_response 403 [] demo_unconvertible_document)"
    by (simp add: error_member_converts_def parseJson_def demo_response_fields
          demo_parse_documents demo_documents_nonempty demo_ToString_unconvertible)
  have 8: "\<exists>x e. ToString demo_platform x = Inl e \<and>
      handleResponse demo_platform (demo_response 403 [] demo_unconvertible_document) =
        Inl e"
    using inst [of "demo_response 403 [] demo_unconvertible_document"] u
    by (simp add: demo_response_fields)
  have 9: "handleResponse demo_platform (demo_response 204 [] []) = Inr (JObj [])"
    using inst [of "demo_response 204 [] []"] by (simp add: demo_response_fields)
  have 10: "handleResponse demo_platform (demo_response 200 [] []) = Inr (JObj [])"
    using inst [of "demo_response 200 [] []"] by (simp add: demo_response_fields)
  have d: "demo_ok_document \<noteq> []" by (rule demo_documents_nonempty)
  have 11: "handleResponse demo_platform (demo_response 200 [] demo_ok_document) =
     Inr (JObj [(''ok'', JBool True)])"
    using inst [of "demo_response 200 [] demo_ok_document" _ demo_ok_document] d
    by (simp add: demo_response_fields demo_parse_documents)
  from 1 demo_converts(1) 2 demo_converts(2) 3 e 4 5 6 7 u 8 9 10 11 show ?thesis
    by (intro conjI)
qed

section \<open>The decimal string of a timestamp\<close>

lemma digit_at:
  assumes "0 \<le> k" and "k < (10::int)"
  shows "isDigit (''0123456789'' ! nat k)" and "digit_value (''0123456789'' ! nat k) = k"
proof -
  from assms have "k = 0 \<or> k = 1 \<or> k = 2 \<or> k = 3 \<or> k = 4 \<or> k = 5 \<or> k = 6 \<or> k = 7 \<or>
    k = 8 \<or> k = 9"
    by arith
  then show "isDigit (''0123456789'' ! nat k)" and "digit_value (''0123456789'' ! nat k) = k"
    by (auto simp: isDigit_def digit_value_def)
qed

lemma digits_of_small: "n < 10 \<Longrightarrow> digits_of n = [''0123456789'' ! nat n]"
  by (subst digits_of.simps) simp

lemma digits_of_large:
  "\<not> n < 10 \<Longrightarrow> digits_of n = digits_of (n div 10) @ [''0123456789'' ! nat (n mod 10)]"
  by (subst digits_of.simps) simp

lemma digits_of_digits: "0 \<le> n \<Longrightarrow> digits_of n \<noteq> [] \<and> list_all isDigit (digits_of n)"
proof (induction n rule: digits_of.induct)
  case (1 n)
  show ?case
  proof (cases "n < 10")
    case True
    with "1.prems" show ?thesis
      by (simp add: digits_of_small digit_at)
  next
    case False
    then have "0 \<le> n div 10" and "0 \<le> n mod 10" and "n mod 10 < 10" by simp_all
    with False "1.IH" show ?thesis
      by (simp add: digits_of_large digit_at)
  qed
qed

lemma digits_of_value:
  "0 \<le> n \<Longrightarrow> foldl (\<lambda>a d. 10 * a + digit_value d) 0 (digits_of n) = n"
proof (induction n rule: digits_of.induct)
  case (1 n)
  show ?case
  proof (cases "n < 10")
    case True
    with "1.prems" show ?thesis
      by (simp add: digits_of_small digit_at)
  next
    case False
    then have "0 \<le> n div 10" and "0 \<le> n mod 10" and "n mod 10 < 10" by simp_all
    with False "1.IH" show ?thesis
      by (simp add: digits_of_large digit_at)
  qed
qed

lemma white_space_lead:
  "w \<in> set StrWhiteSpaceChar \<Longrightarrow> \<exists>t. w = hd w # t \<and> hd w \<in> set white_space_lead"
  unfolding StrWhiteSpaceChar_def white_space_lead_def by auto

lemma digit_or_minus_no_lead:
  "isDigit c \<or> c = CHR ''-'' \<Longrightarrow> c \<notin> set white_space_lead"
  unfolding isDigit_def white_space_lead_def by auto

lemma TrimStart_digit_or_minus:
  assumes "isDigit c \<or> c = CHR ''-''"
  shows "TrimStart (c # r) = c # r"
proof (rule TrimStart_no_white_space)
  have "\<not> prefix w (c # r)" if "w \<in> set StrWhiteSpaceChar" for w
  proof
    assume p: "prefix w (c # r)"
    from white_space_lead [OF that] obtain t where w: "w = hd w # t"
      and l: "hd w \<in> set white_space_lead"
      by blast
    from p w have "hd w = c" by (metis Cons_prefix_Cons)
    with l digit_or_minus_no_lead [OF assms] show False by simp
  qed
  then show "find (\<lambda>w. prefix w (c # r)) StrWhiteSpaceChar = None"
    by (simp add: find_None_iff)
qed

lemma takeWhile_all: "list_all Q xs \<Longrightarrow> takeWhile Q xs = xs"
  by (induction xs) simp_all

lemma parseInt_unsigned:
  assumes "TrimStart s = c # r" and "c \<noteq> CHR ''-''" and "c \<noteq> CHR ''+''"
    and "takeWhile isDigit (c # r) = ds" and "ds \<noteq> []"
  shows "parseInt s = Num (foldl (\<lambda>a d. 10 * a + digit_value d) 0 ds)"
  unfolding parseInt_def Let_def assms(1)
  using assms(2-5) by (simp del: takeWhile.simps)

lemma parseInt_negative:
  assumes "TrimStart s = CHR ''-'' # r"
    and "takeWhile isDigit r = ds" and "ds \<noteq> []"
  shows "parseInt s = Num (- foldl (\<lambda>a d. 10 * a + digit_value d) 0 ds)"
  unfolding parseInt_def Let_def assms(1)
  using assms(2-3) by simp

lemma parseInt_digits:
  assumes "0 \<le> n"
  shows "parseInt (digits_of n) = Num n"
proof -
  from digits_of_digits [OF assms] obtain c r where cr: "digits_of n = c # r"
    and c: "isDigit c" and all: "list_all isDigit (c # r)"
    by (cases "digits_of n") auto
  from c have m: "c \<noteq> CHR ''-''" and p: "c \<noteq> CHR ''+''" by (auto simp: isDigit_def)
  have t: "TrimStart (digits_of n) = c # r"
    unfolding cr using TrimStart_digit_or_minus c by blast
  have a: "takeWhile isDigit (c # r) = digits_of n"
    unfolding cr using all by (rule takeWhile_all)
  have ne: "digits_of n \<noteq> []" by (simp add: cr)
  show ?thesis
    using parseInt_unsigned [OF t m p a ne] digits_of_value [OF assms] by (simp only:)
qed

lemma parseInt_minus_digits:
  assumes "0 \<le> n"
  shows "parseInt (CHR ''-'' # digits_of n) = Num (- n)"
proof -
  from digits_of_digits [OF assms] have ne: "digits_of n \<noteq> []"
    and all: "list_all isDigit (digits_of n)"
    by simp_all
  have t: "TrimStart (CHR ''-'' # digits_of n) = CHR ''-'' # digits_of n"
    using TrimStart_digit_or_minus by blast
  have a: "takeWhile isDigit (digits_of n) = digits_of n"
    using all by (rule takeWhile_all)
  show ?thesis
    using parseInt_negative [OF t a ne] digits_of_value [OF assms] by (simp only:)
qed

text \<open>
  The string that \<open>Number_toString\<close> gives for an integer is its decimal numeral:
  \<open>parseInt\<close> reads the integer back from it.
\<close>

lemma parseInt_Number_toString: "parseInt (Number_toString (Num i)) = Num i"
proof (cases "i < 0")
  case True
  then show ?thesis
    using parseInt_minus_digits [of "- i"] by (simp add: Number_toString.simps)
next
  case False
  then show ?thesis
    using parseInt_digits [of i] by (simp add: Number_toString.simps)
qed

end
